theory Spec2Isabelle
  imports Main "HOL-Library.AList" "HOL-Library.Char_ord" "HOL-Library.List_Lexorder"
begin

section \<open>Go channels and map-keyed registries\<close>

text \<open>
  A buffered Go channel is a queue with a capacity and a closed flag. A send on a closed
  channel and a second close are run-time panics, so they are values of \<open>go_panic\<close>.
  The statement \<^verbatim>\<open>select { case ch <- v: ... default: ... }\<close> is a send that never
  waits: it panics on a closed channel, enqueues when the buffer has room, and takes the
  \<^verbatim>\<open>default\<close> branch otherwise.
\<close>

datatype go_panic = SendOnClosedChannel | CloseOfClosedChannel | NilPointerDereference | InterfaceConversion

record 'a chan =
  ch_buf :: "'a list"
  ch_cap :: nat
  ch_closed :: bool

definition make_chan :: "nat \<Rightarrow> 'a chan" where
  "make_chan n = \<lparr>ch_buf = [], ch_cap = n, ch_closed = False\<rparr>"

definition has_room :: "'a chan \<Rightarrow> bool" where
  "has_room ch = (length (ch_buf ch) < ch_cap ch)"

definition enqueue :: "'a \<Rightarrow> 'a chan \<Rightarrow> 'a chan" where
  "enqueue v ch = ch\<lparr>ch_buf := ch_buf ch @ [v]\<rparr>"

definition close_chan :: "'a chan \<Rightarrow> go_panic + 'a chan" where
  "close_chan ch = (if ch_closed ch then Inl CloseOfClosedChannel else Inr (ch\<lparr>ch_closed := True\<rparr>))"

text \<open>
  The keys of a Go map are kept as a list without repetition, in the order in which a
  \<^verbatim>\<open>range\<close> loop visits them (Go leaves that order open; nothing below depends
  on it). \<^verbatim>\<open>m[k] = true\<close> is \<open>map_put\<close>, \<^verbatim>\<open>delete(m, k)\<close> is
  \<open>removeAll\<close>, \<^verbatim>\<open>len(m)\<close> is \<open>length\<close>.
\<close>

definition map_put :: "'k \<Rightarrow> 'k list \<Rightarrow> 'k list" where
  "map_put k ks = (if k \<in> set ks then ks else ks @ [k])"

section \<open>Package live: the lottery snapshot and its event stream\<close>

record LotteryDataInput =
  in_Date :: string
  in_Live :: string
  in_Status :: string
  in_Set1200 :: string
  in_Value1200 :: string
  in_Result1200 :: string
  in_Set430 :: string
  in_Value430 :: string
  in_Result430 :: string
  in_Modern930 :: string
  in_Internet930 :: string
  in_Modern200 :: string
  in_Internet200 :: string
  in_UpdateTime :: string

record LotteryData =
  Date :: string
  Live :: string
  Status :: string
  Set1200 :: string
  Value1200 :: string
  Result1200 :: string
  Set430 :: string
  Value430 :: string
  Result430 :: string
  Modern930 :: string
  Internet930 :: string
  Modern200 :: string
  Internet200 :: string
  UpdateTime :: string
  ViewCount :: int

text \<open>The two closures of \<^verbatim>\<open>ToLotteryData\<close>.\<close>

definition defaultVal :: "string \<Rightarrow> string" where
  "defaultVal val = (if val = [] then ''--'' else val)"

definition defaultResult :: "string \<Rightarrow> string" where
  "defaultResult val = (if val = [] then ''---'' else val)"

definition ToLotteryData :: "LotteryDataInput \<Rightarrow> LotteryData" where
  "ToLotteryData input =
     \<lparr>Date = in_Date input,
      Live = defaultVal (in_Live input),
      Status = in_Status input,
      Set1200 = defaultVal (in_Set1200 input),
      Value1200 = defaultVal (in_Value1200 input),
      Result1200 = defaultResult (in_Result1200 input),
      Set430 = defaultVal (in_Set430 input),
      Value430 = defaultVal (in_Value430 input),
      Result430 = defaultResult (in_Result430 input),
      Modern930 = defaultVal (in_Modern930 input),
      Internet930 = defaultVal (in_Internet930 input),
      Modern200 = defaultVal (in_Modern200 input),
      Internet200 = defaultVal (in_Internet200 input),
      UpdateTime = in_UpdateTime input,
      ViewCount = 0\<rparr>"

text \<open>
  The package's global variables. \<open>live_chans\<close> is the heap of the channels made by
  \<^verbatim>\<open>make(chan string, 50)\<close>, addressed by natural numbers, and \<open>live_next\<close> the next
  address \<^verbatim>\<open>make\<close> hands out; \<open>live_clients\<close> holds the keys of
  \<^verbatim>\<open>clients map[chan string]bool\<close>. \<open>json_calls\<close> is not in the source: it counts
  the calls of the JSON encoder, so that "encoded once" can be stated.
\<close>

record live_state =
  currentData :: LotteryData
  live_clients :: "nat list"
  live_chans :: "nat \<Rightarrow> string chan"
  live_next :: nat
  cachedJSONMessage :: string
  json_calls :: nat

text \<open>\<^verbatim>\<open>Init\<close>; the clock's reading for \<^verbatim>\<open>UpdateTime\<close> is an argument.\<close>

definition Init :: "string \<Rightarrow> live_state" where
  "Init now =
     \<lparr>currentData =
        \<lparr>Date = [], Live = ''--'', Status = ''Off'', Set1200 = ''--'', Value1200 = ''--'',
         Result1200 = ''---'', Set430 = ''--'', Value430 = ''--'', Result430 = ''---'',
         Modern930 = ''---'', Internet930 = ''---'', Modern200 = ''---'', Internet200 = ''---'',
         UpdateTime = now, ViewCount = 0\<rparr>,
      live_clients = [],
      live_chans = (\<lambda>_. make_chan 0),
      live_next = 0,
      cachedJSONMessage = [],
      json_calls = 0\<rparr>"

text \<open>
  The loop of \<^verbatim>\<open>broadcastUpdate\<close> over \<^verbatim>\<open>clients\<close>: a send that never waits; a
  full channel is skipped. The counters \<^verbatim>\<open>sentCount\<close> and \<^verbatim>\<open>skippedCount\<close> are
  returned for the log line.
\<close>

fun send_clients :: "string \<Rightarrow> nat list \<Rightarrow> (nat \<Rightarrow> string chan) \<Rightarrow> nat \<Rightarrow> nat
    \<Rightarrow> go_panic + ((nat \<Rightarrow> string chan) \<times> nat \<times> nat)" where
  "send_clients message [] h sentCount skippedCount = Inr (h, sentCount, skippedCount)"
| "send_clients message (clientChan # rest) h sentCount skippedCount =
     (if ch_closed (h clientChan) then Inl SendOnClosedChannel
      else if has_room (h clientChan)
        then send_clients message rest (h(clientChan := enqueue message (h clientChan)))
               (Suc sentCount) skippedCount
        else send_clients message rest h sentCount (Suc skippedCount))"

text \<open>
  \<^verbatim>\<open>broadcastUpdate\<close>. The JSON encoder of the Go library is the argument \<open>json\<close>
  (\<open>None\<close> is its error); \<^verbatim>\<open>Encoder.Encode\<close> writes the encoding followed by a
  newline. The write of \<^verbatim>\<open>currentData.ViewCount\<close> goes through the shared pointer, so
  it stays in the snapshot.
\<close>

definition broadcastUpdate :: "(LotteryData \<Rightarrow> string option) \<Rightarrow> live_state \<Rightarrow> go_panic + live_state" where
  "broadcastUpdate json s =
     (let clientCount = int (length (live_clients s));
          d = (currentData s)\<lparr>ViewCount := clientCount\<rparr>;
          s1 = s\<lparr>currentData := d, json_calls := Suc (json_calls s)\<rparr>
      in case json d of
           None \<Rightarrow> Inr s1
         | Some js \<Rightarrow>
             (let message = js @ [CHR 0x0A];
                  s2 = s1\<lparr>cachedJSONMessage := message\<rparr>
              in case send_clients message (live_clients s2) (live_chans s2) 0 0 of
                   Inl e \<Rightarrow> Inl e
                 | Inr (h, sentCount, skippedCount) \<Rightarrow> Inr (s2\<lparr>live_chans := h\<rparr>)))"

text \<open>
  \<^verbatim>\<open>UpdateLotteryData\<close>: the request body, read and parsed, is \<open>Some input\<close>; a body
  that cannot be read or parsed is \<open>None\<close> and answered with status 400. The history
  callback (\<^verbatim>\<open>checkAndInsertHistory\<close>) touches none of the state below and is left out.
  The result is the status code and the new state.
\<close>

definition UpdateLotteryData :: "(LotteryData \<Rightarrow> string option) \<Rightarrow> LotteryDataInput option \<Rightarrow> live_state
    \<Rightarrow> go_panic + (nat \<times> live_state)" where
  "UpdateLotteryData json body s =
     (case body of
        None \<Rightarrow> Inr (400, s)
      | Some inputData \<Rightarrow>
          (let newData = ToLotteryData inputData;
               s1 = s\<lparr>currentData := newData\<rparr>
           in case broadcastUpdate json s1 of
                Inl e \<Rightarrow> Inl e
              | Inr s2 \<Rightarrow> Inr (200, s2)))"


definition sse_frame :: "string \<Rightarrow> string" where
  "sse_frame m = ''data: '' @ m @ [CHR 0x0A, CHR 0x0A]"

text \<open>
  \<^verbatim>\<open>StreamLotteryData\<close> up to its loop: make the channel, register it, write the first
  frame. The result is the channel's address, the frame written and the new state.
  \<^verbatim>\<open>json.Marshal\<close> is the same encoder without the newline; its error is dropped by
  the source, which then writes an empty payload.
\<close>

definition StreamLotteryData_open :: "(LotteryData \<Rightarrow> string option) \<Rightarrow> live_state \<Rightarrow> nat \<times> string \<times> live_state" where
  "StreamLotteryData_open json s =
     (let clientChan = live_next s;
          s1 = s\<lparr>live_chans := (live_chans s)(clientChan := make_chan 50),
                 live_next := Suc clientChan,
                 live_clients := map_put clientChan (live_clients s)\<rparr>;
          clientCount = int (length (live_clients s1));
          initialMessage = cachedJSONMessage s1
      in if initialMessage = []
         then (let d = (currentData s1)\<lparr>ViewCount := clientCount\<rparr>;
                   s2 = s1\<lparr>currentData := d, json_calls := Suc (json_calls s1)\<rparr>
               in (clientChan, sse_frame (case json d of None \<Rightarrow> [] | Some js \<Rightarrow> js), s2))
         else (clientChan, sse_frame initialMessage, s1))"

text \<open>
  The two branches of the loop of \<^verbatim>\<open>StreamLotteryData\<close>. On cancellation the channel
  is deleted from the registry under the lock and closed after the lock is released. A
  receive takes the oldest message and writes its frame; on an empty channel it waits,
  which is \<open>None\<close>.
\<close>

definition StreamLotteryData_done :: "nat \<Rightarrow> live_state \<Rightarrow> go_panic + live_state" where
  "StreamLotteryData_done clientChan s =
     (let s1 = s\<lparr>live_clients := removeAll clientChan (live_clients s)\<rparr>
      in case close_chan (live_chans s1 clientChan) of
           Inl e \<Rightarrow> Inl e
         | Inr ch \<Rightarrow> Inr (s1\<lparr>live_chans := (live_chans s1)(clientChan := ch)\<rparr>))"

definition StreamLotteryData_recv :: "nat \<Rightarrow> live_state \<Rightarrow> (string \<times> live_state) option" where
  "StreamLotteryData_recv clientChan s =
     (case ch_buf (live_chans s clientChan) of
        [] \<Rightarrow> None
      | message # rest \<Rightarrow>
          Some (sse_frame message,
                s\<lparr>live_chans := (live_chans s)(clientChan := (live_chans s clientChan)\<lparr>ch_buf := rest\<rparr>)\<rparr>))"

section \<open>The events and rows shared by the two chat packages\<close>

text \<open>
  Both chat packages declare the same \<^verbatim>\<open>Message\<close> struct. Times are seconds on the
  server's clock. What a subscriber's channel carries is the JSON text of an event
  \<^verbatim>\<open>{type, data}\<close>; the events are kept here before encoding, one constructor for each
  \<^verbatim>\<open>type\<close> the source writes, with the fields of its \<^verbatim>\<open>data\<close>. The encoding of
  such a value has no error, so the branch of the source for an error of
  \<^verbatim>\<open>json.Marshal\<close> has no counterpart below.
\<close>

record Message =
  msg_ID :: int
  msg_UserID :: string
  msg_Username :: string
  msg_PhotoURL :: string
  msg_Message :: string
  msg_CreatedAt :: nat

record OnlineUser =
  ou_UserID :: string
  ou_Username :: string
  ou_PhotoURL :: string

datatype event =
    MessageEvent Message
  | OnlineEvent int "OnlineUser list"
  | ConnectedEvent string int
  | UserJoinedEvent string string int
  | UserLeftEvent string string int
  | PongEvent

text \<open>A row of \<^verbatim>\<open>chat_users\<close> or \<^verbatim>\<open>chatws_users\<close>, without its time stamps.\<close>

record User =
  usr_ID :: string
  usr_Email :: string
  usr_Username :: string
  usr_PhotoURL :: string
  usr_IsOnline :: bool

text \<open>
  \<^verbatim>\<open>select { case ch <- v: ... default: ... }\<close>: the flag tells which branch ran.
\<close>

definition try_send :: "'a \<Rightarrow> 'a chan \<Rightarrow> go_panic + (bool \<times> 'a chan)" where
  "try_send v ch =
     (if ch_closed ch then Inl SendOnClosedChannel
      else if has_room ch then Inr (True, enqueue v ch)
      else Inr (False, ch))"

text \<open>
  The statement \<^verbatim>\<open>INSERT ... ON CONFLICT(id) DO UPDATE SET username, photo_url,
  is_online\<close> of both packages: a row with the id is updated and keeps its e-mail
  address, a new id is inserted, and a new id with an e-mail address that another row
  holds breaks the \<^verbatim>\<open>UNIQUE\<close> constraint, which is \<open>None\<close>.
\<close>

definition upsert_user :: "string \<Rightarrow> string \<Rightarrow> string \<Rightarrow> string \<Rightarrow> User list \<Rightarrow> User list option" where
  "upsert_user uid email username photo us =
     (if uid \<in> usr_ID ` set us
      then Some (map (\<lambda>u. if usr_ID u = uid
                            then u\<lparr>usr_Username := username, usr_PhotoURL := photo, usr_IsOnline := True\<rparr>
                            else u) us)
      else if email \<in> usr_Email ` set us then None
      else Some (us @ [\<lparr>usr_ID = uid, usr_Email = email, usr_Username = username,
                         usr_PhotoURL = photo, usr_IsOnline = True\<rparr>]))"

definition set_is_online :: "string \<Rightarrow> bool \<Rightarrow> User list \<Rightarrow> User list" where
  "set_is_online uid b us = map (\<lambda>u. if usr_ID u = uid then u\<lparr>usr_IsOnline := b\<rparr> else u) us"

section \<open>Package chat: the chat over server-sent events\<close>

record SSEClient =
  sse_UserID :: string
  sse_Username :: string
  sse_PhotoURL :: string
  sse_Channel :: "event chan"

text \<open>
  The package's variables and its tables. \<open>chat_clients\<close> is
  \<^verbatim>\<open>clients map[string]*SSEClient\<close> as an association list; the registry holds the only
  pointer to a client that a broadcast follows, so the client stands in its entry.
  \<open>chat_message_seq\<close> is the last id that \<^verbatim>\<open>AUTOINCREMENT\<close> gave out.
  \<open>chat_blocks\<close> holds the pairs (blocker, blocked), \<open>chat_banned_users\<close> the banned user
  ids. While \<open>chat_db_down\<close> holds every statement sent to the database returns an error:
  this is how the \<^verbatim>\<open>err != nil\<close> branches of the source are reached.
\<close>

record chat_state =
  googleClientID :: string
  chat_clients :: "(string \<times> SSEClient) list"
  chat_users :: "User list"
  chat_messages :: "Message list"
  chat_message_seq :: int
  chat_blocks :: "(string \<times> string) list"
  chat_banned_users :: "string list"
  chat_db_down :: bool

definition chat_init :: chat_state where
  "chat_init =
     \<lparr>googleClientID = [], chat_clients = [], chat_users = [], chat_messages = [],
      chat_message_seq = 0, chat_blocks = [], chat_banned_users = [], chat_db_down = False\<rparr>"


text \<open>\<^verbatim>\<open>isUserBanned\<close>: \<^verbatim>\<open>err == nil && count > 0\<close>.\<close>

definition isUserBanned :: "string \<Rightarrow> chat_state \<Rightarrow> bool" where
  "isUserBanned userID s =
     (\<not> chat_db_down s \<and> 0 < length (filter (\<lambda>b. b = userID) (chat_banned_users s)))"

text \<open>
  The query of \<^verbatim>\<open>broadcastMessage\<close> for one recipient. On an error the source logs and
  goes on with \<^verbatim>\<open>count\<close> still zero.
\<close>

definition block_count :: "string \<Rightarrow> string \<Rightarrow> chat_state \<Rightarrow> nat" where
  "block_count blocker blocked s =
     (if chat_db_down s then 0
      else length (filter (\<lambda>(a, b). a = blocker \<and> b = blocked) (chat_blocks s)))"

text \<open>
  The loop of \<^verbatim>\<open>broadcastMessage\<close>: a recipient who has blocked the sender is passed
  over; for the others the send never waits and a full channel is passed over as well.
\<close>

fun broadcastMessage_loop :: "chat_state \<Rightarrow> event \<Rightarrow> string \<Rightarrow> (string \<times> SSEClient) list
    \<Rightarrow> go_panic + (string \<times> SSEClient) list" where
  "broadcastMessage_loop s sseData senderID [] = Inr []"
| "broadcastMessage_loop s sseData senderID ((userID, client) # rest) =
     (if block_count userID senderID s = 0
      then (case try_send sseData (sse_Channel client) of
              Inl e \<Rightarrow> Inl e
            | Inr (sent, ch) \<Rightarrow>
                (case broadcastMessage_loop s sseData senderID rest of
                   Inl e \<Rightarrow> Inl e
                 | Inr rest' \<Rightarrow> Inr ((userID, client\<lparr>sse_Channel := ch\<rparr>) # rest')))
      else (case broadcastMessage_loop s sseData senderID rest of
              Inl e \<Rightarrow> Inl e
            | Inr rest' \<Rightarrow> Inr ((userID, client) # rest')))"

definition broadcastMessage :: "Message \<Rightarrow> string \<Rightarrow> chat_state \<Rightarrow> go_panic + chat_state" where
  "broadcastMessage message senderID s =
     (if length (chat_clients s) = 0 then Inr s
      else case broadcastMessage_loop s (MessageEvent message) senderID (chat_clients s) of
             Inl e \<Rightarrow> Inl e
           | Inr cs \<Rightarrow> Inr (s\<lparr>chat_clients := cs\<rparr>))"

text \<open>
  \<^verbatim>\<open>broadcastOnlineStatus\<close>. The error of \<^verbatim>\<open>db.Query\<close> is dropped and the rows are
  used at once, so a failed query is a nil pointer dereference. The rows come ordered by
  user name.
\<close>

fun offer_all :: "event \<Rightarrow> (string \<times> SSEClient) list \<Rightarrow> go_panic + (string \<times> SSEClient) list" where
  "offer_all sseData [] = Inr []"
| "offer_all sseData ((userID, client) # rest) =
     (case try_send sseData (sse_Channel client) of
        Inl e \<Rightarrow> Inl e
      | Inr (sent, ch) \<Rightarrow>
          (case offer_all sseData rest of
             Inl e \<Rightarrow> Inl e
           | Inr rest' \<Rightarrow> Inr ((userID, client\<lparr>sse_Channel := ch\<rparr>) # rest')))"

definition online_rows :: "User list \<Rightarrow> OnlineUser list" where
  "online_rows us =
     map (\<lambda>u. \<lparr>ou_UserID = usr_ID u, ou_Username = usr_Username u, ou_PhotoURL = usr_PhotoURL u\<rparr>)
       (sort_key usr_Username (filter usr_IsOnline us))"

definition broadcastOnlineStatus :: "chat_state \<Rightarrow> go_panic + chat_state" where
  "broadcastOnlineStatus s =
     (if chat_db_down s then Inl NilPointerDereference
      else (let online = online_rows (chat_users s);
                status = OnlineEvent (int (length online)) online
            in case offer_all status (chat_clients s) of
                 Inl e \<Rightarrow> Inl e
               | Inr cs \<Rightarrow> Inr (s\<lparr>chat_clients := cs\<rparr>)))"

text \<open>
  \<^verbatim>\<open>getOnlineCount\<close> of package chat counts rows of the table; the error of the query
  is dropped and leaves the count at zero.
\<close>

definition chat_getOnlineCount :: "chat_state \<Rightarrow> int" where
  "chat_getOnlineCount s =
     (if chat_db_down s then 0 else int (length (filter usr_IsOnline (chat_users s))))"

text \<open>
  \<^verbatim>\<open>googleAuthHandler\<close>. The token validator of the Google library is the argument
  \<open>validate\<close>, from the token and the client id to the string-valued claims of the verified
  token (\<open>None\<close> is its error). The request is the four fields of the JSON body. The result
  is the status code and the new state.
\<close>

record AuthReq =
  req_IDToken :: string
  req_Email :: string
  req_Username :: string
  req_PhotoURL :: string

type_synonym claims = "string \<Rightarrow> string option"

definition nonempty_or :: "string option \<Rightarrow> string \<Rightarrow> string" where
  "nonempty_or c fallback = (case c of None \<Rightarrow> fallback | Some v \<Rightarrow> if v \<noteq> [] then v else fallback)"

definition googleAuthHandler :: "(string \<Rightarrow> string \<Rightarrow> claims option) \<Rightarrow> AuthReq \<Rightarrow> chat_state
    \<Rightarrow> go_panic + (nat \<times> chat_state)" where
  "googleAuthHandler validate req s =
     (let save = (\<lambda>userID email username photoURL.
            if chat_db_down s then Inr (500, s)
            else case upsert_user userID email username photoURL (chat_users s) of
                   None \<Rightarrow> Inr (500, s)
                 | Some us \<Rightarrow>
                     (case broadcastOnlineStatus (s\<lparr>chat_users := us\<rparr>) of
                        Inl e \<Rightarrow> Inl e
                      | Inr s' \<Rightarrow> Inr (200, s')))
      in if req_IDToken req = [] then Inr (400, s)
         else if googleClientID s \<noteq> []
         then (case validate (req_IDToken req) (googleClientID s) of
                 None \<Rightarrow> Inr (401, s)
               | Some payload \<Rightarrow>
                   (case payload ''email'' of
                      None \<Rightarrow> Inl InterfaceConversion
                    | Some email \<Rightarrow>
                        save email email
                          (nonempty_or (payload ''name'')
                             (if req_Username req \<noteq> [] then req_Username req else email))
                          (nonempty_or (payload ''picture'') (req_PhotoURL req))))
         else if req_Email req = [] then Inr (400, s)
         else save (req_Email req) (req_Email req) (req_Username req) (req_PhotoURL req))"

text \<open>
  \<^verbatim>\<open>sendMessageHandler\<close>: the two required fields of the body and the clock's reading.
\<close>

definition find_user :: "string \<Rightarrow> chat_state \<Rightarrow> User option" where
  "find_user userID s = (if chat_db_down s then None else find (\<lambda>u. usr_ID u = userID) (chat_users s))"

definition sendMessageHandler :: "string \<Rightarrow> string \<Rightarrow> nat \<Rightarrow> chat_state \<Rightarrow> go_panic + (nat \<times> chat_state)" where
  "sendMessageHandler userID text now s =
     (if userID = [] \<or> text = [] then Inr (400, s)
      else if isUserBanned userID s then Inr (403, s)
      else case find_user userID s of
             None \<Rightarrow> Inr (401, s)
           | Some u \<Rightarrow>
               if chat_db_down s then Inr (500, s)
               else (let messageID = chat_message_seq s + 1;
                         message = \<lparr>msg_ID = messageID, msg_UserID = userID, msg_Username = usr_Username u,
                                    msg_PhotoURL = usr_PhotoURL u, msg_Message = text, msg_CreatedAt = now\<rparr>;
                         s1 = s\<lparr>chat_messages := chat_messages s @ [message], chat_message_seq := messageID\<rparr>
                     in case broadcastMessage message userID s1 of
                          Inl e \<Rightarrow> Inl e
                        | Inr s2 \<Rightarrow> Inr (200, s2)))"





definition sql_limit :: "int \<Rightarrow> 'a list \<Rightarrow> 'a list" where
  "sql_limit n xs = (if n < 0 then xs else take (nat n) xs)"


text \<open>\<^verbatim>\<open>blockUserHandler\<close>: \<^verbatim>\<open>INSERT OR IGNORE\<close> into the table of blocks.\<close>

definition blockUserHandler :: "string \<Rightarrow> string \<Rightarrow> chat_state \<Rightarrow> nat \<times> chat_state" where
  "blockUserHandler blockerID blockedID s =
     (if blockerID = [] \<or> blockedID = [] then (400, s)
      else if chat_db_down s then (500, s)
      else if (blockerID, blockedID) \<in> set (chat_blocks s) then (200, s)
      else (200, s\<lparr>chat_blocks := chat_blocks s @ [(blockerID, blockedID)]\<rparr>))"

text \<open>
  \<^verbatim>\<open>sseStreamHandler\<close> up to its loop: register under the user id, mark the row online
  (the error of the statement is dropped), broadcast the online status, and write the
  \<^verbatim>\<open>connected\<close> event. The result is the status code, the event written to the new
  stream and the new state.
\<close>

definition mark_online :: "string \<Rightarrow> bool \<Rightarrow> chat_state \<Rightarrow> chat_state" where
  "mark_online userID b s =
     (if chat_db_down s then s else s\<lparr>chat_users := set_is_online userID b (chat_users s)\<rparr>)"

definition sseStreamHandler_open :: "string \<Rightarrow> string \<Rightarrow> string \<Rightarrow> chat_state
    \<Rightarrow> go_panic + (nat \<times> event option \<times> chat_state)" where
  "sseStreamHandler_open userID username photoURL s =
     (if userID = [] then Inr (400, None, s)
      else (let client = \<lparr>sse_UserID = userID, sse_Username = username, sse_PhotoURL = photoURL,
                          sse_Channel = make_chan 10\<rparr>;
                s1 = s\<lparr>chat_clients := AList.update userID client (chat_clients s)\<rparr>;
                s2 = mark_online userID True s1
            in case broadcastOnlineStatus s2 of
                 Inl e \<Rightarrow> Inl e
               | Inr s3 \<Rightarrow> Inr (200, Some (ConnectedEvent userID (chat_getOnlineCount s3)), s3)))"

text \<open>The branch of the loop taken when the request's context is cancelled.\<close>

definition sseStreamHandler_done :: "string \<Rightarrow> chat_state \<Rightarrow> go_panic + chat_state" where
  "sseStreamHandler_done userID s =
     (let s1 = s\<lparr>chat_clients := AList.delete userID (chat_clients s)\<rparr>;
          s2 = mark_online userID False s1
      in broadcastOnlineStatus s2)"

section \<open>Package chatws: the chat over WebSocket\<close>

text \<open>
  A goroutine that sends on a full channel, or receives from an empty one, waits for
  another goroutine. A step that comes to such a point is \<open>Waits\<close>; a step that panics
  is \<open>Panics\<close>.
\<close>

datatype 'a outcome = Returns 'a | Waits | Panics go_panic

definition send :: "'a \<Rightarrow> 'a chan \<Rightarrow> 'a chan outcome" where
  "send v ch =
     (if ch_closed ch then Panics SendOnClosedChannel
      else if has_room ch then Returns (enqueue v ch)
      else Waits)"

record WSClient =
  ws_UserID :: string
  ws_Username :: string
  ws_PhotoURL :: string
  ws_Send :: "event chan"

text \<open>
  The package's variables and tables. \<open>ws_clients\<close> holds the keys of
  \<^verbatim>\<open>clients map[*WSClient]bool\<close>, which are addresses in the heap \<open>ws_heap\<close> of client
  objects; \<open>ws_next\<close> is the next fresh address. \<open>ws_broadcast\<close> is the channel
  \<^verbatim>\<open>broadcast\<close>. \<open>ws_readers\<close> is not a variable of the source: it lists the clients
  whose \<^verbatim>\<open>readPump\<close> is running. The package creates the table
  \<^verbatim>\<open>chatws_blocked_users\<close> and never reads it.
\<close>

record chatws_state =
  ws_clients :: "nat list"
  ws_heap :: "nat \<Rightarrow> WSClient"
  ws_next :: nat
  ws_broadcast :: "event chan"
  ws_readers :: "nat list"
  chatws_users :: "User list"
  chatws_messages :: "Message list"
  chatws_message_seq :: int
  chatws_blocked_users :: "(string \<times> string) list"
  chatws_db_down :: bool

definition chatws_init :: chatws_state where
  "chatws_init =
     \<lparr>ws_clients = [],
      ws_heap = (\<lambda>_. \<lparr>ws_UserID = [], ws_Username = [], ws_PhotoURL = [], ws_Send = make_chan 0\<rparr>),
      ws_next = 0, ws_broadcast = make_chan 256, ws_readers = [],
      chatws_users = [], chatws_messages = [], chatws_message_seq = 0,
      chatws_blocked_users = [], chatws_db_down = False\<rparr>"

text \<open>\<^verbatim>\<open>strings.Split\<close> with a separator of one character.\<close>

fun Split :: "string \<Rightarrow> char \<Rightarrow> string list" where
  "Split [] sep = [[]]"
| "Split (c # cs) sep =
     (if c = sep then [] # Split cs sep
      else (case Split cs sep of [] \<Rightarrow> [[c]] | p # ps \<Rightarrow> (c # p) # ps))"

text \<open>
  \<^verbatim>\<open>authenticateClientWithToken\<close>. The argument \<open>decode\<close> stands for the two library
  calls on the middle part of the token, \<^verbatim>\<open>base64.RawURLEncoding.DecodeString\<close> and
  \<^verbatim>\<open>json.Unmarshal\<close>, and gives the string-valued claims (\<open>None\<close> when either call
  fails). A claim that is absent or not a string reads as the empty string. The error of
  the database statement is logged and dropped. No signature, expiry or audience is
  checked, and no validator is called.
\<close>

definition claim_string :: "claims \<Rightarrow> string \<Rightarrow> string" where
  "claim_string c k = (case c k of None \<Rightarrow> [] | Some v \<Rightarrow> v)"

definition authenticateClientWithToken :: "(string \<Rightarrow> claims option) \<Rightarrow> string \<Rightarrow> chatws_state
    \<Rightarrow> (WSClient \<times> chatws_state) option" where
  "authenticateClientWithToken decode idToken s =
     (let parts = Split idToken (CHR ''.'')
      in if length parts \<noteq> 3 then None
         else case decode (parts ! 1) of
                None \<Rightarrow> None
              | Some c \<Rightarrow>
                  (let userID = claim_string c ''sub'';
                       email = claim_string c ''email'';
                       name = claim_string c ''name'';
                       picture = claim_string c ''picture''
                   in if userID = [] then None
                      else (let username = (if name = [] then email else name);
                                s1 = (if chatws_db_down s then s
                                      else case upsert_user userID email username picture (chatws_users s) of
                                             None \<Rightarrow> s
                                           | Some us \<Rightarrow> s\<lparr>chatws_users := us\<rparr>);
                                client = \<lparr>ws_UserID = userID, ws_Username = username,
                                           ws_PhotoURL = picture, ws_Send = make_chan 256\<rparr>
                            in Some (client, s1))))"

definition updateUserOnlineStatus :: "string \<Rightarrow> bool \<Rightarrow> chatws_state \<Rightarrow> chatws_state" where
  "updateUserOnlineStatus userID isOnline s =
     (if chatws_db_down s then s
      else s\<lparr>chatws_users := set_is_online userID isOnline (chatws_users s)\<rparr>)"

definition ws_getOnlineCount :: "chatws_state \<Rightarrow> int" where
  "ws_getOnlineCount s = int (length (ws_clients s))"

text \<open>
  \<^verbatim>\<open>sendOnlineUsersToClient\<close>: the other users of the registry and its size, offered to
  the new client's own channel without waiting.
\<close>

definition sendOnlineUsersToClient :: "nat \<Rightarrow> chatws_state \<Rightarrow> go_panic + chatws_state" where
  "sendOnlineUsersToClient client s =
     (let others = filter (\<lambda>c. ws_UserID (ws_heap s c) \<noteq> ws_UserID (ws_heap s client)) (ws_clients s);
          onlineUsers = map (\<lambda>c. \<lparr>ou_UserID = ws_UserID (ws_heap s c), ou_Username = ws_Username (ws_heap s c),
                                   ou_PhotoURL = ws_PhotoURL (ws_heap s c)\<rparr>) others;
          ev = OnlineEvent (int (length (ws_clients s))) onlineUsers
      in case try_send ev (ws_Send (ws_heap s client)) of
           Inl e \<Rightarrow> Inl e
         | Inr (sent, ch) \<Rightarrow> Inr (s\<lparr>ws_heap := (ws_heap s)(client := (ws_heap s client)\<lparr>ws_Send := ch\<rparr>)\<rparr>))"

definition broadcastUserJoined :: "nat \<Rightarrow> chatws_state \<Rightarrow> chatws_state outcome" where
  "broadcastUserJoined client s =
     (case send (UserJoinedEvent (ws_UserID (ws_heap s client)) (ws_Username (ws_heap s client))
                   (ws_getOnlineCount s)) (ws_broadcast s) of
        Returns ch \<Rightarrow> Returns (s\<lparr>ws_broadcast := ch\<rparr>)
      | Waits \<Rightarrow> Waits
      | Panics e \<Rightarrow> Panics e)"

definition broadcastUserLeft :: "nat \<Rightarrow> chatws_state \<Rightarrow> chatws_state outcome" where
  "broadcastUserLeft client s =
     (case send (UserLeftEvent (ws_UserID (ws_heap s client)) (ws_Username (ws_heap s client))
                   (ws_getOnlineCount s)) (ws_broadcast s) of
        Returns ch \<Rightarrow> Returns (s\<lparr>ws_broadcast := ch\<rparr>)
      | Waits \<Rightarrow> Waits
      | Panics e \<Rightarrow> Panics e)"

text \<open>
  \<^verbatim>\<open>HandleWebSocket\<close> up to the start of the two pumps. \<open>upgraded\<close> tells whether the
  protocol upgrade succeeded. The result tells how the connection ended or the address
  of the client that is now registered.
\<close>

datatype ws_conn = Refused nat | UpgradeFailed | AuthFailed | Active nat

definition HandleWebSocket :: "(string \<Rightarrow> claims option) \<Rightarrow> string \<Rightarrow> bool \<Rightarrow> chatws_state
    \<Rightarrow> (ws_conn \<times> chatws_state) outcome" where
  "HandleWebSocket decode idToken upgraded s =
     (if idToken = [] then Returns (Refused 401, s)
      else if \<not> upgraded then Returns (UpgradeFailed, s)
      else case authenticateClientWithToken decode idToken s of
             None \<Rightarrow> Returns (AuthFailed, s)
           | Some (obj, s1) \<Rightarrow>
               (let client = ws_next s1;
                    s2 = s1\<lparr>ws_heap := (ws_heap s1)(client := obj), ws_next := Suc client,
                           ws_clients := map_put client (ws_clients s1)\<rparr>;
                    s3 = updateUserOnlineStatus (ws_UserID obj) True s2
                in case sendOnlineUsersToClient client s3 of
                     Inl e \<Rightarrow> Panics e
                   | Inr s4 \<Rightarrow>
                       (case broadcastUserJoined client s4 of
                          Returns s5 \<Rightarrow> Returns (Active client, s5\<lparr>ws_readers := map_put client (ws_readers s5)\<rparr>)
                        | Waits \<Rightarrow> Waits
                        | Panics e \<Rightarrow> Panics e)))"

text \<open>
  One turn of the loop of \<^verbatim>\<open>handleBroadcast\<close>: take a message from
  \<^verbatim>\<open>broadcast\<close> and offer it to every registered client; a client whose channel is full
  has the channel closed and is deleted from the registry. The first list of \<open>deliver\<close>
  is what the \<^verbatim>\<open>range\<close> loop has still to visit, the second the registry.
\<close>

fun deliver :: "event \<Rightarrow> nat list \<Rightarrow> nat list \<Rightarrow> (nat \<Rightarrow> WSClient)
    \<Rightarrow> go_panic + (nat list \<times> (nat \<Rightarrow> WSClient))" where
  "deliver message [] clients h = Inr (clients, h)"
| "deliver message (client # rest) clients h =
     (case try_send message (ws_Send (h client)) of
        Inl e \<Rightarrow> Inl e
      | Inr (sent, ch) \<Rightarrow>
          if sent then deliver message rest clients (h(client := (h client)\<lparr>ws_Send := ch\<rparr>))
          else (case close_chan (ws_Send (h client)) of
                  Inl e \<Rightarrow> Inl e
                | Inr ch' \<Rightarrow>
                    deliver message rest (removeAll client clients)
                      (h(client := (h client)\<lparr>ws_Send := ch'\<rparr>))))"

definition handleBroadcast :: "chatws_state \<Rightarrow> chatws_state outcome" where
  "handleBroadcast s =
     (case ch_buf (ws_broadcast s) of
        [] \<Rightarrow> Waits
      | message # rest \<Rightarrow>
          (let s1 = s\<lparr>ws_broadcast := (ws_broadcast s)\<lparr>ch_buf := rest\<rparr>\<rparr>
           in case deliver message (ws_clients s1) (ws_clients s1) (ws_heap s1) of
                Inl e \<Rightarrow> Panics e
              | Inr (cs, h) \<Rightarrow> Returns (s1\<lparr>ws_clients := cs, ws_heap := h\<rparr>)))"

text \<open>
  \<^verbatim>\<open>handleChatMessage\<close>: \<open>field\<close> is the \<^verbatim>\<open>message\<close> entry of the frame when it is a
  string. There is no look at a ban list or at the blocks.
\<close>

definition handleChatMessage :: "nat \<Rightarrow> string option \<Rightarrow> nat \<Rightarrow> chatws_state \<Rightarrow> chatws_state outcome" where
  "handleChatMessage client field now s =
     (case field of
        None \<Rightarrow> Returns s
      | Some messageText \<Rightarrow>
          if messageText = [] then Returns s
          else if chatws_db_down s then Returns s
          else (let messageID = chatws_message_seq s + 1;
                    chatMessage = \<lparr>msg_ID = messageID, msg_UserID = ws_UserID (ws_heap s client),
                                    msg_Username = ws_Username (ws_heap s client),
                                    msg_PhotoURL = ws_PhotoURL (ws_heap s client),
                                    msg_Message = messageText, msg_CreatedAt = now\<rparr>;
                    s1 = s\<lparr>chatws_messages := chatws_messages s @ [chatMessage],
                           chatws_message_seq := messageID\<rparr>
                in case send (MessageEvent chatMessage) (ws_broadcast s1) of
                     Returns ch \<Rightarrow> Returns (s1\<lparr>ws_broadcast := ch\<rparr>)
                   | Waits \<Rightarrow> Waits
                   | Panics e \<Rightarrow> Panics e))"

text \<open>\<^verbatim>\<open>disconnect\<close>: deletion and close together under the lock, then the notice.\<close>

definition disconnect :: "nat \<Rightarrow> chatws_state \<Rightarrow> chatws_state outcome" where
  "disconnect client s =
     (case (if client \<in> set (ws_clients s)
            then (case close_chan (ws_Send (ws_heap s client)) of
                    Inl e \<Rightarrow> Inl e
                  | Inr ch \<Rightarrow> Inr (s\<lparr>ws_clients := removeAll client (ws_clients s),
                                      ws_heap := (ws_heap s)(client := (ws_heap s client)\<lparr>ws_Send := ch\<rparr>)\<rparr>))
            else Inr s) of
        Inl e \<Rightarrow> Panics e
      | Inr s1 \<Rightarrow> broadcastUserLeft client (updateUserOnlineStatus (ws_UserID (ws_heap s client)) False s1))"

text \<open>
  One turn of the loop of \<^verbatim>\<open>readPump\<close>. A frame is a read error, a JSON object whose
  \<^verbatim>\<open>type\<close> is a string (with its \<^verbatim>\<open>message\<close> when that is a string), or an object
  without such a type. A read error ends the pump and runs the deferred
  \<^verbatim>\<open>disconnect\<close>; a frame for a client whose pump has ended is never read. The answer
  to \<^verbatim>\<open>ping\<close> is a send on the client's own channel that waits when the channel is
  full and does not look at the registry.
\<close>

datatype frame = ReadError | Typed string "string option" | Untyped

definition readPump :: "nat \<Rightarrow> frame \<Rightarrow> nat \<Rightarrow> chatws_state \<Rightarrow> chatws_state outcome" where
  "readPump client fr now s =
     (if client \<notin> set (ws_readers s) then Waits
      else case fr of
             ReadError \<Rightarrow> disconnect client (s\<lparr>ws_readers := removeAll client (ws_readers s)\<rparr>)
           | Untyped \<Rightarrow> Returns s
           | Typed msgType field \<Rightarrow>
               if msgType = ''message'' then handleChatMessage client field now s
               else if msgType = ''ping''
               then (case send PongEvent (ws_Send (ws_heap s client)) of
                       Returns ch \<Rightarrow> Returns (s\<lparr>ws_heap := (ws_heap s)(client := (ws_heap s client)\<lparr>ws_Send := ch\<rparr>)\<rparr>)
                     | Waits \<Rightarrow> Waits
                     | Panics e \<Rightarrow> Panics e)
               else Returns s)"

text \<open>
  One receive of \<^verbatim>\<open>writePump\<close> from the client's channel: the oldest message is taken
  and written; on a closed and drained channel the pump returns; on an empty open channel
  it waits.
\<close>

definition writePump :: "nat \<Rightarrow> chatws_state \<Rightarrow> chatws_state outcome" where
  "writePump client s =
     (case ch_buf (ws_Send (ws_heap s client)) of
        [] \<Rightarrow> if ch_closed (ws_Send (ws_heap s client)) then Returns s else Waits
      | message # rest \<Rightarrow>
          Returns (s\<lparr>ws_heap := (ws_heap s)(client := (ws_heap s client)\<lparr>ws_Send := (ws_Send (ws_heap s client))\<lparr>ch_buf := rest\<rparr>\<rparr>)\<rparr>))"

text \<open>
  A schedule of the package's goroutines: each action is one of the pieces above, run to
  its end before the next one starts.
\<close>

datatype ws_action = Connect string bool | Dispatch | Receive nat frame nat | Transmit nat

fun ws_step :: "(string \<Rightarrow> claims option) \<Rightarrow> ws_action \<Rightarrow> chatws_state \<Rightarrow> chatws_state outcome" where
  "ws_step decode (Connect idToken upgraded) s =
     (case HandleWebSocket decode idToken upgraded s of
        Returns (r, s') \<Rightarrow> Returns s'
      | Waits \<Rightarrow> Waits
      | Panics e \<Rightarrow> Panics e)"
| "ws_step decode Dispatch s = handleBroadcast s"
| "ws_step decode (Receive client fr now) s = readPump client fr now s"
| "ws_step decode (Transmit client) s = writePump client s"

fun ws_run :: "(string \<Rightarrow> claims option) \<Rightarrow> ws_action list \<Rightarrow> chatws_state \<Rightarrow> chatws_state outcome" where
  "ws_run decode [] s = Returns s"
| "ws_run decode (a # rest) s =
     (case ws_step decode a s of
        Returns s' \<Rightarrow> ws_run decode rest s'
      | Waits \<Rightarrow> Waits
      | Panics e \<Rightarrow> Panics e)"

section \<open>Invariants\<close>

text \<open>
  What every operation of the package keeps: the registry has no key twice, every registered
  channel was made by \<^verbatim>\<open>make\<close> and is open.
\<close>

definition live_inv :: "live_state \<Rightarrow> bool" where
  "live_inv s = (distinct (live_clients s) \<and>
     (\<forall>c\<in>set (live_clients s). c < live_next s \<and> \<not> ch_closed (live_chans s c)))"

text \<open>
  Package chat has one entry for a user id and never closes a channel; package chatws
  closes a channel only while it deletes the client from the registry.
\<close>

definition chat_inv :: "chat_state \<Rightarrow> bool" where
  "chat_inv s = (distinct (map fst (chat_clients s)) \<and>
     (\<forall>(userID, client)\<in>set (chat_clients s). \<not> ch_closed (sse_Channel client)))"

definition ws_inv :: "chatws_state \<Rightarrow> bool" where
  "ws_inv s = (distinct (ws_clients s) \<and>
     (\<forall>c\<in>set (ws_clients s). c < ws_next s \<and> \<not> ch_closed (ws_Send (ws_heap s c))))"

section \<open>Theorems\<close>

subsection \<open>Package live\<close>

lemma enqueue_simps [simp]:
  "ch_closed (enqueue v ch) = ch_closed ch"
  "ch_cap (enqueue v ch) = ch_cap ch"
  "ch_buf (enqueue v ch) = ch_buf ch @ [v]"
  by (simp_all add: enqueue_def)

lemma send_clients_closed_form:
  "distinct cs \<Longrightarrow> \<forall>c\<in>set cs. \<not> ch_closed (h c) \<Longrightarrow>
   send_clients m cs h a b =
     Inr (\<lambda>c. if c \<in> set cs \<and> has_room (h c) then enqueue m (h c) else h c,
          a + length (filter (\<lambda>c. has_room (h c)) cs),
          b + length (filter (\<lambda>c. \<not> has_room (h c)) cs))"
proof (induction cs arbitrary: h a b)
  case Nil
  then show ?case by simp
next
  case (Cons c cs)
  let ?h = "h(c := enqueue m (h c))"
  have notin: "c \<notin> set cs" and dist: "distinct cs" using Cons.prems(1) by auto
  have same: "\<And>x. x \<in> set cs \<Longrightarrow> ?h x = h x" using notin by auto
  have f1: "filter (\<lambda>x. has_room (?h x)) cs = filter (\<lambda>x. has_room (h x)) cs"
    using notin by (intro filter_cong) auto
  have f2: "filter (\<lambda>x. \<not> has_room (?h x)) cs = filter (\<lambda>x. \<not> has_room (h x)) cs"
    using notin by (intro filter_cong) auto
  show ?case
  proof (cases "has_room (h c)")
    case True
    have open': "\<forall>x\<in>set cs. \<not> ch_closed (?h x)" using Cons.prems(2) by auto
    have step: "send_clients m (c # cs) h a b = send_clients m cs ?h (Suc a) b"
      using Cons.prems(2) True by simp
    have fe: "(\<lambda>x. if x \<in> set cs \<and> has_room (?h x) then enqueue m (?h x) else ?h x) =
          (\<lambda>x. if x \<in> set (c # cs) \<and> has_room (h x) then enqueue m (h x) else h x)"
      using notin True by (auto simp: fun_eq_iff)
    have n1: "Suc a + length (filter (\<lambda>x. has_room (h x)) cs) =
          a + length (filter (\<lambda>x. has_room (h x)) (c # cs))"
      using True by simp
    have n2: "b + length (filter (\<lambda>x. \<not> has_room (h x)) cs) =
          b + length (filter (\<lambda>x. \<not> has_room (h x)) (c # cs))"
      using True by simp
    show ?thesis
      unfolding step Cons.IH [OF dist open', of "Suc a" b] f1 f2 fe n1 n2 ..
  next
    case False
    have open': "\<forall>x\<in>set cs. \<not> ch_closed (h x)" using Cons.prems(2) by auto
    have step: "send_clients m (c # cs) h a b = send_clients m cs h a (Suc b)"
      using Cons.prems(2) False by simp
    have fe: "(\<lambda>x. if x \<in> set cs \<and> has_room (h x) then enqueue m (h x) else h x) =
          (\<lambda>x. if x \<in> set (c # cs) \<and> has_room (h x) then enqueue m (h x) else h x)"
      using notin False by (auto simp: fun_eq_iff)
    have n1: "a + length (filter (\<lambda>x. has_room (h x)) cs) =
          a + length (filter (\<lambda>x. has_room (h x)) (c # cs))"
      using False by simp
    have n2: "Suc b + length (filter (\<lambda>x. \<not> has_room (h x)) cs) =
          b + length (filter (\<lambda>x. \<not> has_room (h x)) (c # cs))"
      using False by simp
    show ?thesis
      unfolding step Cons.IH [OF dist open', of a "Suc b"] fe n1 n2 ..
  qed
qed


lemma broadcastUpdate_ok:
  assumes "live_inv s"
  shows "\<exists>s'. broadcastUpdate json s = Inr s' \<and>
           currentData s' = (currentData s)\<lparr>ViewCount := int (length (live_clients s))\<rparr> \<and>
           live_clients s' = live_clients s \<and> live_next s' = live_next s \<and>
           json_calls s' = Suc (json_calls s)"
proof -
  have d: "distinct (live_clients s)" and o: "\<forall>c\<in>set (live_clients s). \<not> ch_closed (live_chans s c)"
    using assms by (auto simp: live_inv_def)
  show ?thesis
    by (cases "json ((currentData s)\<lparr>ViewCount := int (length (live_clients s))\<rparr>)")
       (simp_all add: broadcastUpdate_def Let_def send_clients_closed_form [OF d o])
qed

text \<open>
  Claim C8, as the code has it. An accepted update stores \<open>ToLotteryData input\<close>: the
  placeholder \<open>--\<close> replaces an empty Live, Set, Value, Modern or Internet field, the
  placeholder \<open>---\<close> an empty Result field, every non-empty field is stored unchanged, and
  Date, Status and UpdateTime are stored as they came, empty or not. The substitution is made
  by the update path before the snapshot is stored; the broadcast that follows only writes the
  viewer count.
\<close>

theorem UpdateLotteryData_placeholders:
  assumes "live_inv s"
  shows "\<exists>s'. UpdateLotteryData json (Some i) s = Inr (200, s') \<and>
     currentData s' = (ToLotteryData i)\<lparr>ViewCount := int (length (live_clients s))\<rparr> \<and>
     Live (currentData s') = (if in_Live i = [] then ''--'' else in_Live i) \<and>
     Set1200 (currentData s') = (if in_Set1200 i = [] then ''--'' else in_Set1200 i) \<and>
     Value1200 (currentData s') = (if in_Value1200 i = [] then ''--'' else in_Value1200 i) \<and>
     Result1200 (currentData s') = (if in_Result1200 i = [] then ''---'' else in_Result1200 i) \<and>
     Set430 (currentData s') = (if in_Set430 i = [] then ''--'' else in_Set430 i) \<and>
     Value430 (currentData s') = (if in_Value430 i = [] then ''--'' else in_Value430 i) \<and>
     Result430 (currentData s') = (if in_Result430 i = [] then ''---'' else in_Result430 i) \<and>
     Modern930 (currentData s') = (if in_Modern930 i = [] then ''--'' else in_Modern930 i) \<and>
     Internet930 (currentData s') = (if in_Internet930 i = [] then ''--'' else in_Internet930 i) \<and>
     Modern200 (currentData s') = (if in_Modern200 i = [] then ''--'' else in_Modern200 i) \<and>
     Internet200 (currentData s') = (if in_Internet200 i = [] then ''--'' else in_Internet200 i) \<and>
     Date (currentData s') = in_Date i \<and>
     Status (currentData s') = in_Status i \<and>
     UpdateTime (currentData s') = in_UpdateTime i"
proof -
  let ?s1 = "s\<lparr>currentData := ToLotteryData i\<rparr>"
  have inv1: "live_inv ?s1" using assms by (simp add: live_inv_def)
  from broadcastUpdate_ok [OF inv1, of json] obtain s' where
    b: "broadcastUpdate json ?s1 = Inr s'" and
    c: "currentData s' = (ToLotteryData i)\<lparr>ViewCount := int (length (live_clients s))\<rparr>"
    by auto
  have u: "UpdateLotteryData json (Some i) s = Inr (200, s')"
    using b by (simp add: UpdateLotteryData_def Let_def)
  show ?thesis
    using u c by (simp add: ToLotteryData_def defaultVal_def defaultResult_def)
qed

theorem UpdateLotteryData_placeholders_witness:
  "live_inv (Init []) \<and>
   (\<exists>s'. UpdateLotteryData (\<lambda>d. Some (Live d))
            (Some \<lparr>in_Date = [], in_Live = ''22'', in_Status = ''On'', in_Set1200 = [], in_Value1200 = [],
                   in_Result1200 = [], in_Set430 = [], in_Value430 = [], in_Result430 = ''134'',
                   in_Modern930 = [], in_Internet930 = [], in_Modern200 = [], in_Internet200 = [],
                   in_UpdateTime = []\<rparr>) (Init []) = Inr (200, s') \<and>
          Live (currentData s') = ''22'' \<and> Set1200 (currentData s') = ''--'' \<and>
          Result1200 (currentData s') = ''---'' \<and> Result430 (currentData s') = ''134'' \<and>
          Date (currentData s') = [])"
proof -
  have inv: "live_inv (Init [])" by (simp add: live_inv_def Init_def)
  show ?thesis
    using inv UpdateLotteryData_placeholders [OF inv, of "\<lambda>d. Some (Live d)"
      "\<lparr>in_Date = [], in_Live = ''22'', in_Status = ''On'', in_Set1200 = [], in_Value1200 = [],
                   in_Result1200 = [], in_Set430 = [], in_Value430 = [], in_Result430 = ''134'',
                   in_Modern930 = [], in_Internet930 = [], in_Modern200 = [], in_Internet200 = [],
                   in_UpdateTime = []\<rparr>"]
    by auto
qed

text \<open>
  Claim C8 as stated fails: an update whose fields are all empty is stored with an empty
  Date, Status and UpdateTime, not with a placeholder.
\<close>

theorem UpdateLotteryData_empty_date_counterexample:
  "(case UpdateLotteryData (\<lambda>d. Some (Live d))
            (Some \<lparr>in_Date = [], in_Live = [], in_Status = [], in_Set1200 = [], in_Value1200 = [],
                   in_Result1200 = [], in_Set430 = [], in_Value430 = [], in_Result430 = [],
                   in_Modern930 = [], in_Internet930 = [], in_Modern200 = [], in_Internet200 = [],
                   in_UpdateTime = []\<rparr>) (Init ''12:00:00 01/01/2025'') of
      Inl e \<Rightarrow> False
    | Inr (code, s') \<Rightarrow> code = 200 \<and> Date (currentData s') = [] \<and> Status (currentData s') = [] \<and>
        UpdateTime (currentData s') = [] \<and> Live (currentData s') = ''--'')"
  by (simp add: UpdateLotteryData_def broadcastUpdate_def Init_def ToLotteryData_def
      defaultVal_def defaultResult_def Let_def)



subsection \<open>The broadcast loops in closed form\<close>

lemma broadcastMessage_loop_closed_form:
  "\<forall>(u, c)\<in>set cs. \<not> ch_closed (sse_Channel c) \<Longrightarrow>
   broadcastMessage_loop s ev sender cs =
     Inr (map (\<lambda>(u, c). (u, if block_count u sender s = 0 \<and> has_room (sse_Channel c)
                              then c\<lparr>sse_Channel := enqueue ev (sse_Channel c)\<rparr> else c)) cs)"
  by (induction cs) (auto simp: try_send_def)

lemma offer_all_closed_form:
  "\<forall>(u, c)\<in>set cs. \<not> ch_closed (sse_Channel c) \<Longrightarrow>
   offer_all ev cs =
     Inr (map (\<lambda>(u, c). (u, if has_room (sse_Channel c)
                              then c\<lparr>sse_Channel := enqueue ev (sse_Channel c)\<rparr> else c)) cs)"
  by (induction cs) (auto simp: try_send_def)

lemma deliver_closed_form:
  "distinct vs \<Longrightarrow> \<forall>c\<in>set vs. \<not> ch_closed (ws_Send (h c)) \<Longrightarrow>
   deliver m vs cs h =
     Inr (filter (\<lambda>c. c \<notin> set vs \<or> has_room (ws_Send (h c))) cs,
          \<lambda>c. if c \<in> set vs
               then (h c)\<lparr>ws_Send := (if has_room (ws_Send (h c)) then enqueue m (ws_Send (h c))
                                        else (ws_Send (h c))\<lparr>ch_closed := True\<rparr>)\<rparr>
               else h c)"
proof (induction vs arbitrary: cs h)
  case Nil
  then show ?case by simp
next
  case (Cons v vs)
  have notin: "v \<notin> set vs" and dist: "distinct vs" using Cons.prems(1) by auto
  have vopen: "\<not> ch_closed (ws_Send (h v))" using Cons.prems(2) by simp
  show ?case
  proof (cases "has_room (ws_Send (h v))")
    case True
    let ?h = "h(v := (h v)\<lparr>ws_Send := enqueue m (ws_Send (h v))\<rparr>)"
    have open': "\<forall>x\<in>set vs. \<not> ch_closed (ws_Send (?h x))" using Cons.prems(2) by auto
    have step: "deliver m (v # vs) cs h = deliver m vs cs ?h"
      using vopen True by (simp add: try_send_def)
    have fl: "filter (\<lambda>c. c \<notin> set vs \<or> has_room (ws_Send (?h c))) cs =
              filter (\<lambda>c. c \<notin> set (v # vs) \<or> has_room (ws_Send (h c))) cs"
      using notin True by (intro filter_cong) auto
    have fe: "(\<lambda>c. if c \<in> set vs
               then (?h c)\<lparr>ws_Send := (if has_room (ws_Send (?h c)) then enqueue m (ws_Send (?h c))
                                        else (ws_Send (?h c))\<lparr>ch_closed := True\<rparr>)\<rparr>
               else ?h c) =
          (\<lambda>c. if c \<in> set (v # vs)
               then (h c)\<lparr>ws_Send := (if has_room (ws_Send (h c)) then enqueue m (ws_Send (h c))
                                        else (ws_Send (h c))\<lparr>ch_closed := True\<rparr>)\<rparr>
               else h c)"
      using notin True by (auto simp: fun_eq_iff)
    show ?thesis
      unfolding step Cons.IH [OF dist open', of cs] fl fe ..
  next
    case False
    let ?h = "h(v := (h v)\<lparr>ws_Send := (ws_Send (h v))\<lparr>ch_closed := True\<rparr>\<rparr>)"
    have open': "\<forall>x\<in>set vs. \<not> ch_closed (ws_Send (?h x))" using Cons.prems(2) notin by auto
    have step: "deliver m (v # vs) cs h = deliver m vs (removeAll v cs) ?h"
      using vopen False by (simp add: try_send_def close_chan_def)
    have fl: "filter (\<lambda>c. c \<notin> set vs \<or> has_room (ws_Send (?h c))) (removeAll v cs) =
              filter (\<lambda>c. c \<notin> set (v # vs) \<or> has_room (ws_Send (h c))) cs"
    proof -
      have ra: "removeAll v cs = filter (\<lambda>x. x \<noteq> v) cs" by (induction cs) auto
      show ?thesis unfolding ra filter_filter using notin False by (intro filter_cong) auto
    qed
    have fe: "(\<lambda>c. if c \<in> set vs
               then (?h c)\<lparr>ws_Send := (if has_room (ws_Send (?h c)) then enqueue m (ws_Send (?h c))
                                        else (ws_Send (?h c))\<lparr>ch_closed := True\<rparr>)\<rparr>
               else ?h c) =
          (\<lambda>c. if c \<in> set (v # vs)
               then (h c)\<lparr>ws_Send := (if has_room (ws_Send (h c)) then enqueue m (ws_Send (h c))
                                        else (ws_Send (h c))\<lparr>ch_closed := True\<rparr>)\<rparr>
               else h c)"
      using notin False by (auto simp: fun_eq_iff)
    show ?thesis
      unfolding step Cons.IH [OF dist open', of "removeAll v cs"] fl fe ..
  qed
qed

subsection \<open>Full channels\<close>

lemma handleBroadcast_closed_form:
  assumes "ws_inv w" and "ch_buf (ws_broadcast w) = m # rest"
  shows "handleBroadcast w =
     Returns (w\<lparr>ws_broadcast := (ws_broadcast w)\<lparr>ch_buf := rest\<rparr>,
                ws_clients := filter (\<lambda>k. has_room (ws_Send (ws_heap w k))) (ws_clients w),
                ws_heap := (\<lambda>k. if k \<in> set (ws_clients w)
                    then (ws_heap w k)\<lparr>ws_Send :=
                           (if has_room (ws_Send (ws_heap w k)) then enqueue m (ws_Send (ws_heap w k))
                            else (ws_Send (ws_heap w k))\<lparr>ch_closed := True\<rparr>)\<rparr>
                    else ws_heap w k)\<rparr>)"
proof -
  have d: "distinct (ws_clients w)" and o: "\<forall>c\<in>set (ws_clients w). \<not> ch_closed (ws_Send (ws_heap w c))"
    using assms(1) by (auto simp: ws_inv_def)
  have fl: "filter (\<lambda>c. c \<notin> set (ws_clients w) \<or> has_room (ws_Send (ws_heap w c))) (ws_clients w) =
            filter (\<lambda>k. has_room (ws_Send (ws_heap w k))) (ws_clients w)"
    by (intro filter_cong) auto
  have del: "deliver m (ws_clients w) (ws_clients w) (ws_heap w) =
      Inr (filter (\<lambda>k. has_room (ws_Send (ws_heap w k))) (ws_clients w),
          \<lambda>k. if k \<in> set (ws_clients w)
               then (ws_heap w k)\<lparr>ws_Send :=
                           (if has_room (ws_Send (ws_heap w k)) then enqueue m (ws_Send (ws_heap w k))
                            else (ws_Send (ws_heap w k))\<lparr>ch_closed := True\<rparr>)\<rparr>
               else ws_heap w k)"
    unfolding deliver_closed_form [OF d o] fl ..
  show ?thesis
    using assms(2) by (simp add: handleBroadcast_def del)
qed




subsection \<open>Package chat: blocks and bans\<close>

lemma broadcastMessage_closed_form:
  assumes "chat_inv s"
  shows "broadcastMessage msg sender s =
     Inr (s\<lparr>chat_clients :=
            map (\<lambda>(u, cl). (u, if block_count u sender s = 0 \<and> has_room (sse_Channel cl)
                                then cl\<lparr>sse_Channel := enqueue (MessageEvent msg) (sse_Channel cl)\<rparr>
                                else cl)) (chat_clients s)\<rparr>)"
proof -
  have oc: "\<forall>(u, cl)\<in>set (chat_clients s). \<not> ch_closed (sse_Channel cl)"
    using assms by (simp add: chat_inv_def)
  show ?thesis
    by (cases "chat_clients s = []")
       (simp_all add: broadcastMessage_def broadcastMessage_loop_closed_form [OF oc])
qed

lemma in_set_mapI: "x \<in> set xs \<Longrightarrow> f x \<in> set (map f xs)"
  by simp

lemma block_count_zero_iff:
  "block_count a b s = 0 \<longleftrightarrow> chat_db_down s \<or> (a, b) \<notin> set (chat_blocks s)"
  by (auto simp: block_count_def filter_empty_conv)

text \<open>
  Claim C5, as the code has it. In package chat, \<^verbatim>\<open>broadcastMessage\<close> asks the table of
  blocks once for each registered recipient. A recipient A who has blocked the sender B gets
  nothing (unless the query fails: then the count stays zero and A is served like anyone
  else). A recipient C who has not blocked B gets the event at the tail of the channel when
  the channel has room, and nothing when it is full. In package chatws,
  \<^verbatim>\<open>handleBroadcast\<close> asks no one: a registered client whose user has blocked the sender
  is served like any other.
\<close>

theorem block_predicate_per_recipient:
  assumes "chat_inv s"
    and "(A, clA) \<in> set (chat_clients s)" and "(A, B) \<in> set (chat_blocks s)"
    and "(C, clC) \<in> set (chat_clients s)" and "(C, B) \<notin> set (chat_blocks s)"
    and "ws_inv w" and "ch_buf (ws_broadcast w) = MessageEvent msg # rest"
    and "k \<in> set (ws_clients w)"
    and "(ws_UserID (ws_heap w k), msg_UserID msg) \<in> set (chatws_blocked_users w)"
  shows "(\<exists>s'. broadcastMessage msg B s = Inr s' \<and>
            (A, if chat_db_down s \<and> has_room (sse_Channel clA)
                then clA\<lparr>sse_Channel := enqueue (MessageEvent msg) (sse_Channel clA)\<rparr>
                else clA) \<in> set (chat_clients s') \<and>
            (C, if has_room (sse_Channel clC)
                then clC\<lparr>sse_Channel := enqueue (MessageEvent msg) (sse_Channel clC)\<rparr>
                else clC) \<in> set (chat_clients s')) \<and>
         (\<exists>w'. handleBroadcast w = Returns w' \<and>
            ws_Send (ws_heap w' k) =
              (if has_room (ws_Send (ws_heap w k)) then enqueue (MessageEvent msg) (ws_Send (ws_heap w k))
               else (ws_Send (ws_heap w k))\<lparr>ch_closed := True\<rparr>))"
proof -
  let ?f = "\<lambda>(u, cl). (u, if block_count u B s = 0 \<and> has_room (sse_Channel cl)
                                then cl\<lparr>sse_Channel := enqueue (MessageEvent msg) (sse_Channel cl)\<rparr>
                                else cl)"
  have a: "?f (A, clA) \<in> set (map ?f (chat_clients s))" by (rule in_set_mapI) (rule assms(2))
  have c: "?f (C, clC) \<in> set (map ?f (chat_clients s))" by (rule in_set_mapI) (rule assms(4))
  have a': "?f (A, clA) = (A, if chat_db_down s \<and> has_room (sse_Channel clA)
                then clA\<lparr>sse_Channel := enqueue (MessageEvent msg) (sse_Channel clA)\<rparr>
                else clA)"
    using assms(3) by (simp add: block_count_zero_iff)
  have c': "?f (C, clC) = (C, if has_room (sse_Channel clC)
                then clC\<lparr>sse_Channel := enqueue (MessageEvent msg) (sse_Channel clC)\<rparr>
                else clC)"
    using assms(5) by (simp add: block_count_zero_iff)
  have chat: "\<exists>s'. broadcastMessage msg B s = Inr s' \<and>
            (A, if chat_db_down s \<and> has_room (sse_Channel clA)
                then clA\<lparr>sse_Channel := enqueue (MessageEvent msg) (sse_Channel clA)\<rparr>
                else clA) \<in> set (chat_clients s') \<and>
            (C, if has_room (sse_Channel clC)
                then clC\<lparr>sse_Channel := enqueue (MessageEvent msg) (sse_Channel clC)\<rparr>
                else clC) \<in> set (chat_clients s')"
    using a c unfolding a' c' by (simp add: broadcastMessage_closed_form [OF assms(1)])
  have ws: "\<exists>w'. handleBroadcast w = Returns w' \<and>
            ws_Send (ws_heap w' k) =
              (if has_room (ws_Send (ws_heap w k)) then enqueue (MessageEvent msg) (ws_Send (ws_heap w k))
               else (ws_Send (ws_heap w k))\<lparr>ch_closed := True\<rparr>)"
    using assms(8) by (simp add: handleBroadcast_closed_form [OF assms(6,7)])
  from chat ws show ?thesis by blast
qed

theorem block_predicate_per_recipient_witness:
  "chat_inv (chat_init\<lparr>chat_clients := [(''a'', \<lparr>sse_UserID = ''a'', sse_Username = ''A'', sse_PhotoURL = [], sse_Channel = make_chan 10\<rparr>), (''c'', \<lparr>sse_UserID = ''c'', sse_Username = ''C'', sse_PhotoURL = [], sse_Channel = make_chan 10\<rparr>)], chat_blocks := [(''a'', ''b'')]\<rparr>) \<and>
   (''a'', \<lparr>sse_UserID = ''a'', sse_Username = ''A'', sse_PhotoURL = [], sse_Channel = make_chan 10\<rparr>) \<in> set (chat_clients (chat_init\<lparr>chat_clients := [(''a'', \<lparr>sse_UserID = ''a'', sse_Username = ''A'', sse_PhotoURL = [], sse_Channel = make_chan 10\<rparr>), (''c'', \<lparr>sse_UserID = ''c'', sse_Username = ''C'', sse_PhotoURL = [], sse_Channel = make_chan 10\<rparr>)], chat_blocks := [(''a'', ''b'')]\<rparr>)) \<and> (''a'', ''b'') \<in> set (chat_blocks (chat_init\<lparr>chat_clients := [(''a'', \<lparr>sse_UserID = ''a'', sse_Username = ''A'', sse_PhotoURL = [], sse_Channel = make_chan 10\<rparr>), (''c'', \<lparr>sse_UserID = ''c'', sse_Username = ''C'', sse_PhotoURL = [], sse_Channel = make_chan 10\<rparr>)], chat_blocks := [(''a'', ''b'')]\<rparr>)) \<and>
   (''c'', \<lparr>sse_UserID = ''c'', sse_Username = ''C'', sse_PhotoURL = [], sse_Channel = make_chan 10\<rparr>) \<in> set (chat_clients (chat_init\<lparr>chat_clients := [(''a'', \<lparr>sse_UserID = ''a'', sse_Username = ''A'', sse_PhotoURL = [], sse_Channel = make_chan 10\<rparr>), (''c'', \<lparr>sse_UserID = ''c'', sse_Username = ''C'', sse_PhotoURL = [], sse_Channel = make_chan 10\<rparr>)], chat_blocks := [(''a'', ''b'')]\<rparr>)) \<and> (''c'', ''b'') \<notin> set (chat_blocks (chat_init\<lparr>chat_clients := [(''a'', \<lparr>sse_UserID = ''a'', sse_Username = ''A'', sse_PhotoURL = [], sse_Channel = make_chan 10\<rparr>), (''c'', \<lparr>sse_UserID = ''c'', sse_Username = ''C'', sse_PhotoURL = [], sse_Channel = make_chan 10\<rparr>)], chat_blocks := [(''a'', ''b'')]\<rparr>)) \<and>
   ws_inv (chatws_init\<lparr>ws_clients := [0], ws_next := 1,
      ws_heap := (\<lambda>k. \<lparr>ws_UserID = ''a'', ws_Username = ''A'', ws_PhotoURL = [], ws_Send = make_chan 256\<rparr>),
      ws_broadcast := \<lparr>ch_buf = [MessageEvent \<lparr>msg_ID = 1, msg_UserID = ''b'', msg_Username = ''B'', msg_PhotoURL = [], msg_Message = ''hi'', msg_CreatedAt = 7\<rparr>], ch_cap = 256, ch_closed = False\<rparr>,
      chatws_blocked_users := [(''a'', ''b'')]\<rparr>) \<and> ch_buf (ws_broadcast (chatws_init\<lparr>ws_clients := [0], ws_next := 1,
      ws_heap := (\<lambda>k. \<lparr>ws_UserID = ''a'', ws_Username = ''A'', ws_PhotoURL = [], ws_Send = make_chan 256\<rparr>),
      ws_broadcast := \<lparr>ch_buf = [MessageEvent \<lparr>msg_ID = 1, msg_UserID = ''b'', msg_Username = ''B'', msg_PhotoURL = [], msg_Message = ''hi'', msg_CreatedAt = 7\<rparr>], ch_cap = 256, ch_closed = False\<rparr>,
      chatws_blocked_users := [(''a'', ''b'')]\<rparr>)) = MessageEvent \<lparr>msg_ID = 1, msg_UserID = ''b'', msg_Username = ''B'', msg_PhotoURL = [], msg_Message = ''hi'', msg_CreatedAt = 7\<rparr> # [] \<and>
   0 \<in> set (ws_clients (chatws_init\<lparr>ws_clients := [0], ws_next := 1,
      ws_heap := (\<lambda>k. \<lparr>ws_UserID = ''a'', ws_Username = ''A'', ws_PhotoURL = [], ws_Send = make_chan 256\<rparr>),
      ws_broadcast := \<lparr>ch_buf = [MessageEvent \<lparr>msg_ID = 1, msg_UserID = ''b'', msg_Username = ''B'', msg_PhotoURL = [], msg_Message = ''hi'', msg_CreatedAt = 7\<rparr>], ch_cap = 256, ch_closed = False\<rparr>,
      chatws_blocked_users := [(''a'', ''b'')]\<rparr>)) \<and>
   (ws_UserID (ws_heap (chatws_init\<lparr>ws_clients := [0], ws_next := 1,
      ws_heap := (\<lambda>k. \<lparr>ws_UserID = ''a'', ws_Username = ''A'', ws_PhotoURL = [], ws_Send = make_chan 256\<rparr>),
      ws_broadcast := \<lparr>ch_buf = [MessageEvent \<lparr>msg_ID = 1, msg_UserID = ''b'', msg_Username = ''B'', msg_PhotoURL = [], msg_Message = ''hi'', msg_CreatedAt = 7\<rparr>], ch_cap = 256, ch_closed = False\<rparr>,
      chatws_blocked_users := [(''a'', ''b'')]\<rparr>) 0), msg_UserID \<lparr>msg_ID = 1, msg_UserID = ''b'', msg_Username = ''B'', msg_PhotoURL = [], msg_Message = ''hi'', msg_CreatedAt = 7\<rparr>) \<in> set (chatws_blocked_users (chatws_init\<lparr>ws_clients := [0], ws_next := 1,
      ws_heap := (\<lambda>k. \<lparr>ws_UserID = ''a'', ws_Username = ''A'', ws_PhotoURL = [], ws_Send = make_chan 256\<rparr>),
      ws_broadcast := \<lparr>ch_buf = [MessageEvent \<lparr>msg_ID = 1, msg_UserID = ''b'', msg_Username = ''B'', msg_PhotoURL = [], msg_Message = ''hi'', msg_CreatedAt = 7\<rparr>], ch_cap = 256, ch_closed = False\<rparr>,
      chatws_blocked_users := [(''a'', ''b'')]\<rparr>)) \<and>
   (\<exists>s'. broadcastMessage \<lparr>msg_ID = 1, msg_UserID = ''b'', msg_Username = ''B'', msg_PhotoURL = [], msg_Message = ''hi'', msg_CreatedAt = 7\<rparr> ''b'' (chat_init\<lparr>chat_clients := [(''a'', \<lparr>sse_UserID = ''a'', sse_Username = ''A'', sse_PhotoURL = [], sse_Channel = make_chan 10\<rparr>), (''c'', \<lparr>sse_UserID = ''c'', sse_Username = ''C'', sse_PhotoURL = [], sse_Channel = make_chan 10\<rparr>)], chat_blocks := [(''a'', ''b'')]\<rparr>) = Inr s' \<and>
      (''a'', \<lparr>sse_UserID = ''a'', sse_Username = ''A'', sse_PhotoURL = [], sse_Channel = make_chan 10\<rparr>) \<in> set (chat_clients s') \<and>
      (''c'', \<lparr>sse_UserID = ''c'', sse_Username = ''C'', sse_PhotoURL = [], sse_Channel = make_chan 10\<rparr>\<lparr>sse_Channel := enqueue (MessageEvent \<lparr>msg_ID = 1, msg_UserID = ''b'', msg_Username = ''B'', msg_PhotoURL = [], msg_Message = ''hi'', msg_CreatedAt = 7\<rparr>) (make_chan 10)\<rparr>) \<in> set (chat_clients s')) \<and>
   (\<exists>w'. handleBroadcast (chatws_init\<lparr>ws_clients := [0], ws_next := 1,
      ws_heap := (\<lambda>k. \<lparr>ws_UserID = ''a'', ws_Username = ''A'', ws_PhotoURL = [], ws_Send = make_chan 256\<rparr>),
      ws_broadcast := \<lparr>ch_buf = [MessageEvent \<lparr>msg_ID = 1, msg_UserID = ''b'', msg_Username = ''B'', msg_PhotoURL = [], msg_Message = ''hi'', msg_CreatedAt = 7\<rparr>], ch_cap = 256, ch_closed = False\<rparr>,
      chatws_blocked_users := [(''a'', ''b'')]\<rparr>) = Returns w' \<and>
      ws_Send (ws_heap w' 0) = enqueue (MessageEvent \<lparr>msg_ID = 1, msg_UserID = ''b'', msg_Username = ''B'', msg_PhotoURL = [], msg_Message = ''hi'', msg_CreatedAt = 7\<rparr>) (make_chan 256))"
proof -
  have h1: "chat_inv (chat_init\<lparr>chat_clients := [(''a'', \<lparr>sse_UserID = ''a'', sse_Username = ''A'', sse_PhotoURL = [], sse_Channel = make_chan 10\<rparr>), (''c'', \<lparr>sse_UserID = ''c'', sse_Username = ''C'', sse_PhotoURL = [], sse_Channel = make_chan 10\<rparr>)], chat_blocks := [(''a'', ''b'')]\<rparr>)" by (simp add: chat_inv_def chat_init_def make_chan_def)
  have h2: "(''a'', \<lparr>sse_UserID = ''a'', sse_Username = ''A'', sse_PhotoURL = [], sse_Channel = make_chan 10\<rparr>) \<in> set (chat_clients (chat_init\<lparr>chat_clients := [(''a'', \<lparr>sse_UserID = ''a'', sse_Username = ''A'', sse_PhotoURL = [], sse_Channel = make_chan 10\<rparr>), (''c'', \<lparr>sse_UserID = ''c'', sse_Username = ''C'', sse_PhotoURL = [], sse_Channel = make_chan 10\<rparr>)], chat_blocks := [(''a'', ''b'')]\<rparr>))" by simp
  have h3: "(''a'', ''b'') \<in> set (chat_blocks (chat_init\<lparr>chat_clients := [(''a'', \<lparr>sse_UserID = ''a'', sse_Username = ''A'', sse_PhotoURL = [], sse_Channel = make_chan 10\<rparr>), (''c'', \<lparr>sse_UserID = ''c'', sse_Username = ''C'', sse_PhotoURL = [], sse_Channel = make_chan 10\<rparr>)], chat_blocks := [(''a'', ''b'')]\<rparr>))" by simp
  have h4: "(''c'', \<lparr>sse_UserID = ''c'', sse_Username = ''C'', sse_PhotoURL = [], sse_Channel = make_chan 10\<rparr>) \<in> set (chat_clients (chat_init\<lparr>chat_clients := [(''a'', \<lparr>sse_UserID = ''a'', sse_Username = ''A'', sse_PhotoURL = [], sse_Channel = make_chan 10\<rparr>), (''c'', \<lparr>sse_UserID = ''c'', sse_Username = ''C'', sse_PhotoURL = [], sse_Channel = make_chan 10\<rparr>)], chat_blocks := [(''a'', ''b'')]\<rparr>))" by simp
  have h5: "(''c'', ''b'') \<notin> set (chat_blocks (chat_init\<lparr>chat_clients := [(''a'', \<lparr>sse_UserID = ''a'', sse_Username = ''A'', sse_PhotoURL = [], sse_Channel = make_chan 10\<rparr>), (''c'', \<lparr>sse_UserID = ''c'', sse_Username = ''C'', sse_PhotoURL = [], sse_Channel = make_chan 10\<rparr>)], chat_blocks := [(''a'', ''b'')]\<rparr>))" by simp
  have h6: "ws_inv (chatws_init\<lparr>ws_clients := [0], ws_next := 1,
      ws_heap := (\<lambda>k. \<lparr>ws_UserID = ''a'', ws_Username = ''A'', ws_PhotoURL = [], ws_Send = make_chan 256\<rparr>),
      ws_broadcast := \<lparr>ch_buf = [MessageEvent \<lparr>msg_ID = 1, msg_UserID = ''b'', msg_Username = ''B'', msg_PhotoURL = [], msg_Message = ''hi'', msg_CreatedAt = 7\<rparr>], ch_cap = 256, ch_closed = False\<rparr>,
      chatws_blocked_users := [(''a'', ''b'')]\<rparr>)" by (simp add: ws_inv_def chatws_init_def make_chan_def)
  have h7: "ch_buf (ws_broadcast (chatws_init\<lparr>ws_clients := [0], ws_next := 1,
      ws_heap := (\<lambda>k. \<lparr>ws_UserID = ''a'', ws_Username = ''A'', ws_PhotoURL = [], ws_Send = make_chan 256\<rparr>),
      ws_broadcast := \<lparr>ch_buf = [MessageEvent \<lparr>msg_ID = 1, msg_UserID = ''b'', msg_Username = ''B'', msg_PhotoURL = [], msg_Message = ''hi'', msg_CreatedAt = 7\<rparr>], ch_cap = 256, ch_closed = False\<rparr>,
      chatws_blocked_users := [(''a'', ''b'')]\<rparr>)) = MessageEvent \<lparr>msg_ID = 1, msg_UserID = ''b'', msg_Username = ''B'', msg_PhotoURL = [], msg_Message = ''hi'', msg_CreatedAt = 7\<rparr> # []" by simp
  have h8: "0 \<in> set (ws_clients (chatws_init\<lparr>ws_clients := [0], ws_next := 1,
      ws_heap := (\<lambda>k. \<lparr>ws_UserID = ''a'', ws_Username = ''A'', ws_PhotoURL = [], ws_Send = make_chan 256\<rparr>),
      ws_broadcast := \<lparr>ch_buf = [MessageEvent \<lparr>msg_ID = 1, msg_UserID = ''b'', msg_Username = ''B'', msg_PhotoURL = [], msg_Message = ''hi'', msg_CreatedAt = 7\<rparr>], ch_cap = 256, ch_closed = False\<rparr>,
      chatws_blocked_users := [(''a'', ''b'')]\<rparr>))" by simp
  have h9: "(ws_UserID (ws_heap (chatws_init\<lparr>ws_clients := [0], ws_next := 1,
      ws_heap := (\<lambda>k. \<lparr>ws_UserID = ''a'', ws_Username = ''A'', ws_PhotoURL = [], ws_Send = make_chan 256\<rparr>),
      ws_broadcast := \<lparr>ch_buf = [MessageEvent \<lparr>msg_ID = 1, msg_UserID = ''b'', msg_Username = ''B'', msg_PhotoURL = [], msg_Message = ''hi'', msg_CreatedAt = 7\<rparr>], ch_cap = 256, ch_closed = False\<rparr>,
      chatws_blocked_users := [(''a'', ''b'')]\<rparr>) 0), msg_UserID \<lparr>msg_ID = 1, msg_UserID = ''b'', msg_Username = ''B'', msg_PhotoURL = [], msg_Message = ''hi'', msg_CreatedAt = 7\<rparr>) \<in> set (chatws_blocked_users (chatws_init\<lparr>ws_clients := [0], ws_next := 1,
      ws_heap := (\<lambda>k. \<lparr>ws_UserID = ''a'', ws_Username = ''A'', ws_PhotoURL = [], ws_Send = make_chan 256\<rparr>),
      ws_broadcast := \<lparr>ch_buf = [MessageEvent \<lparr>msg_ID = 1, msg_UserID = ''b'', msg_Username = ''B'', msg_PhotoURL = [], msg_Message = ''hi'', msg_CreatedAt = 7\<rparr>], ch_cap = 256, ch_closed = False\<rparr>,
      chatws_blocked_users := [(''a'', ''b'')]\<rparr>))" by simp
  have up: "\<not> chat_db_down (chat_init\<lparr>chat_clients := [(''a'', \<lparr>sse_UserID = ''a'', sse_Username = ''A'', sse_PhotoURL = [], sse_Channel = make_chan 10\<rparr>), (''c'', \<lparr>sse_UserID = ''c'', sse_Username = ''C'', sse_PhotoURL = [], sse_Channel = make_chan 10\<rparr>)], chat_blocks := [(''a'', ''b'')]\<rparr>)" by (simp add: chat_init_def)
  have r1: "has_room (make_chan 10 :: event chan)" "has_room (make_chan 256 :: event chan)"
    by (simp_all add: has_room_def make_chan_def)
  note t = block_predicate_per_recipient [OF h1 h2 h3 h4 h5 h6 h7 h8 h9]
  have c: "(\<exists>s'. broadcastMessage \<lparr>msg_ID = 1, msg_UserID = ''b'', msg_Username = ''B'', msg_PhotoURL = [], msg_Message = ''hi'', msg_CreatedAt = 7\<rparr> ''b'' (chat_init\<lparr>chat_clients := [(''a'', \<lparr>sse_UserID = ''a'', sse_Username = ''A'', sse_PhotoURL = [], sse_Channel = make_chan 10\<rparr>), (''c'', \<lparr>sse_UserID = ''c'', sse_Username = ''C'', sse_PhotoURL = [], sse_Channel = make_chan 10\<rparr>)], chat_blocks := [(''a'', ''b'')]\<rparr>) = Inr s' \<and>
      (''a'', \<lparr>sse_UserID = ''a'', sse_Username = ''A'', sse_PhotoURL = [], sse_Channel = make_chan 10\<rparr>) \<in> set (chat_clients s') \<and>
      (''c'', \<lparr>sse_UserID = ''c'', sse_Username = ''C'', sse_PhotoURL = [], sse_Channel = make_chan 10\<rparr>\<lparr>sse_Channel := enqueue (MessageEvent \<lparr>msg_ID = 1, msg_UserID = ''b'', msg_Username = ''B'', msg_PhotoURL = [], msg_Message = ''hi'', msg_CreatedAt = 7\<rparr>) (make_chan 10)\<rparr>) \<in> set (chat_clients s')) \<and>
   (\<exists>w'. handleBroadcast (chatws_init\<lparr>ws_clients := [0], ws_next := 1,
      ws_heap := (\<lambda>k. \<lparr>ws_UserID = ''a'', ws_Username = ''A'', ws_PhotoURL = [], ws_Send = make_chan 256\<rparr>),
      ws_broadcast := \<lparr>ch_buf = [MessageEvent \<lparr>msg_ID = 1, msg_UserID = ''b'', msg_Username = ''B'', msg_PhotoURL = [], msg_Message = ''hi'', msg_CreatedAt = 7\<rparr>], ch_cap = 256, ch_closed = False\<rparr>,
      chatws_blocked_users := [(''a'', ''b'')]\<rparr>) = Returns w' \<and>
      ws_Send (ws_heap w' 0) = enqueue (MessageEvent \<lparr>msg_ID = 1, msg_UserID = ''b'', msg_Username = ''B'', msg_PhotoURL = [], msg_Message = ''hi'', msg_CreatedAt = 7\<rparr>) (make_chan 256))"
    using t up r1 by simp
  show ?thesis using h1 h2 h3 h4 h5 h6 h7 h8 h9 c by blast
qed

text \<open>
  Claim C5 as stated fails twice. In package chat, user c has not blocked the sender b, but
  c's channel holds ten messages, and the message of b is not put on it: the registry is as
  it was before the request. In package chatws, the client of user a, who has blocked b,
  gets the message of b.
\<close>

theorem blocked_and_full_recipients_counterexample:
  "(case sendMessageHandler ''b'' ''hi'' 7 (chat_init\<lparr>chat_users := [\<lparr>usr_ID = ''b'', usr_Email = ''b'', usr_Username = ''B'', usr_PhotoURL = [], usr_IsOnline = True\<rparr>], chat_clients := [(''a'', \<lparr>sse_UserID = ''a'', sse_Username = ''A'', sse_PhotoURL = [], sse_Channel = make_chan 10\<rparr>), (''c'', \<lparr>sse_UserID = ''c'', sse_Username = ''C'', sse_PhotoURL = [], sse_Channel = \<lparr>ch_buf = replicate 10 PongEvent, ch_cap = 10, ch_closed = False\<rparr>\<rparr>)], chat_blocks := [(''a'', ''b'')]\<rparr>) of
      Inl e \<Rightarrow> False
    | Inr (code, s') \<Rightarrow> code = 200 \<and> chat_clients s' = chat_clients (chat_init\<lparr>chat_users := [\<lparr>usr_ID = ''b'', usr_Email = ''b'', usr_Username = ''B'', usr_PhotoURL = [], usr_IsOnline = True\<rparr>], chat_clients := [(''a'', \<lparr>sse_UserID = ''a'', sse_Username = ''A'', sse_PhotoURL = [], sse_Channel = make_chan 10\<rparr>), (''c'', \<lparr>sse_UserID = ''c'', sse_Username = ''C'', sse_PhotoURL = [], sse_Channel = \<lparr>ch_buf = replicate 10 PongEvent, ch_cap = 10, ch_closed = False\<rparr>\<rparr>)], chat_blocks := [(''a'', ''b'')]\<rparr>)) \<and>
   (case handleBroadcast (chatws_init\<lparr>ws_clients := [0], ws_next := 1,
      ws_heap := (\<lambda>k. \<lparr>ws_UserID = ''a'', ws_Username = ''A'', ws_PhotoURL = [], ws_Send = make_chan 256\<rparr>),
      ws_broadcast := \<lparr>ch_buf = [MessageEvent \<lparr>msg_ID = 1, msg_UserID = ''b'', msg_Username = ''B'', msg_PhotoURL = [], msg_Message = ''hi'', msg_CreatedAt = 7\<rparr>], ch_cap = 256, ch_closed = False\<rparr>,
      chatws_blocked_users := [(''a'', ''b'')]\<rparr>) of
      Returns w' \<Rightarrow> ch_buf (ws_Send (ws_heap w' 0)) = [MessageEvent \<lparr>msg_ID = 1, msg_UserID = ''b'', msg_Username = ''B'', msg_PhotoURL = [], msg_Message = ''hi'', msg_CreatedAt = 7\<rparr>]
    | Waits \<Rightarrow> False
    | Panics e \<Rightarrow> False)"
  by (simp add: sendMessageHandler_def isUserBanned_def find_user_def chat_init_def Let_def
      broadcastMessage_def block_count_def try_send_def has_room_def make_chan_def
      handleBroadcast_def chatws_init_def enqueue_def)

text \<open>
  Claim C6, as the code has it. For a request of \<^verbatim>\<open>sendMessageHandler\<close> with a user id
  and a text: a banned sender is answered with status 403 and nothing changes; a sender who
  is not banned and whose row cannot be read is answered with status 401 and nothing
  changes; a known sender who is not banned has the message stored and the
  \<^verbatim>\<open>message\<close> event, with the text, the stored user name and the user id, put on the
  channel of every subscriber who has not blocked the sender and whose channel has room.
  \<^verbatim>\<open>handleChatMessage\<close> of package chatws looks at no ban list: every non-empty text
  is stored and put on the broadcast channel.
\<close>

theorem sendMessageHandler_cases:
  assumes "chat_inv s" and "userID \<noteq> []" and "text \<noteq> []"
    and "text' \<noteq> []" and "\<not> chatws_db_down w" and "\<not> ch_closed (ws_broadcast w)"
    and "has_room (ws_broadcast w)"
  shows "(isUserBanned userID s \<longrightarrow> sendMessageHandler userID text now s = Inr (403, s)) \<and>
         (\<not> isUserBanned userID s \<and> find_user userID s = None \<longrightarrow>
            sendMessageHandler userID text now s = Inr (401, s)) \<and>
         (\<forall>u. \<not> isUserBanned userID s \<and> find_user userID s = Some u \<longrightarrow>
            (\<exists>s'. sendMessageHandler userID text now s = Inr (200, s') \<and>
               chat_messages s' = chat_messages s @
                 [\<lparr>msg_ID = chat_message_seq s + 1, msg_UserID = userID, msg_Username = usr_Username u,
                   msg_PhotoURL = usr_PhotoURL u, msg_Message = text, msg_CreatedAt = now\<rparr>] \<and>
               chat_clients s' =
                 map (\<lambda>(r, cl). (r, if block_count r userID s = 0 \<and> has_room (sse_Channel cl)
                        then cl\<lparr>sse_Channel := enqueue (MessageEvent
                               \<lparr>msg_ID = chat_message_seq s + 1, msg_UserID = userID,
                                msg_Username = usr_Username u, msg_PhotoURL = usr_PhotoURL u,
                                msg_Message = text, msg_CreatedAt = now\<rparr>) (sse_Channel cl)\<rparr>
                        else cl)) (chat_clients s))) \<and>
         handleChatMessage k (Some text') now w =
           Returns (w\<lparr>chatws_messages := chatws_messages w @
                        [\<lparr>msg_ID = chatws_message_seq w + 1, msg_UserID = ws_UserID (ws_heap w k),
                          msg_Username = ws_Username (ws_heap w k), msg_PhotoURL = ws_PhotoURL (ws_heap w k),
                          msg_Message = text', msg_CreatedAt = now\<rparr>],
                      chatws_message_seq := chatws_message_seq w + 1,
                      ws_broadcast := enqueue (MessageEvent
                         \<lparr>msg_ID = chatws_message_seq w + 1, msg_UserID = ws_UserID (ws_heap w k),
                          msg_Username = ws_Username (ws_heap w k), msg_PhotoURL = ws_PhotoURL (ws_heap w k),
                          msg_Message = text', msg_CreatedAt = now\<rparr>) (ws_broadcast w)\<rparr>)"
proof -
  have banned: "isUserBanned userID s \<longrightarrow> sendMessageHandler userID text now s = Inr (403, s)"
    using assms(2,3) by (simp add: sendMessageHandler_def)
  have unknown: "\<not> isUserBanned userID s \<and> find_user userID s = None \<longrightarrow>
            sendMessageHandler userID text now s = Inr (401, s)"
    using assms(2,3) by (simp add: sendMessageHandler_def)
  have known: "\<forall>u. \<not> isUserBanned userID s \<and> find_user userID s = Some u \<longrightarrow>
            (\<exists>s'. sendMessageHandler userID text now s = Inr (200, s') \<and>
               chat_messages s' = chat_messages s @
                 [\<lparr>msg_ID = chat_message_seq s + 1, msg_UserID = userID, msg_Username = usr_Username u,
                   msg_PhotoURL = usr_PhotoURL u, msg_Message = text, msg_CreatedAt = now\<rparr>] \<and>
               chat_clients s' =
                 map (\<lambda>(r, cl). (r, if block_count r userID s = 0 \<and> has_room (sse_Channel cl)
                        then cl\<lparr>sse_Channel := enqueue (MessageEvent
                               \<lparr>msg_ID = chat_message_seq s + 1, msg_UserID = userID,
                                msg_Username = usr_Username u, msg_PhotoURL = usr_PhotoURL u,
                                msg_Message = text, msg_CreatedAt = now\<rparr>) (sse_Channel cl)\<rparr>
                        else cl)) (chat_clients s))"
  proof (intro allI impI)
    fix u assume h: "\<not> isUserBanned userID s \<and> find_user userID s = Some u"
    then have up: "\<not> chat_db_down s" by (auto simp: find_user_def split: if_splits)
    let ?m = "\<lparr>msg_ID = chat_message_seq s + 1, msg_UserID = userID, msg_Username = usr_Username u,
                   msg_PhotoURL = usr_PhotoURL u, msg_Message = text, msg_CreatedAt = now\<rparr>"
    let ?s1 = "s\<lparr>chat_messages := chat_messages s @ [?m], chat_message_seq := chat_message_seq s + 1\<rparr>"
    have inv1: "chat_inv ?s1" using assms(1) by (simp add: chat_inv_def)
    have bc: "\<And>r. block_count r userID ?s1 = block_count r userID s" by (simp add: block_count_def)
    show "\<exists>s'. sendMessageHandler userID text now s = Inr (200, s') \<and>
               chat_messages s' = chat_messages s @ [?m] \<and>
               chat_clients s' =
                 map (\<lambda>(r, cl). (r, if block_count r userID s = 0 \<and> has_room (sse_Channel cl)
                        then cl\<lparr>sse_Channel := enqueue (MessageEvent ?m) (sse_Channel cl)\<rparr>
                        else cl)) (chat_clients s)"
      using h up assms(2,3)
      by (simp add: sendMessageHandler_def Let_def broadcastMessage_closed_form [OF inv1] bc)
  qed
  have ws: "handleChatMessage k (Some text') now w =
           Returns (w\<lparr>chatws_messages := chatws_messages w @
                        [\<lparr>msg_ID = chatws_message_seq w + 1, msg_UserID = ws_UserID (ws_heap w k),
                          msg_Username = ws_Username (ws_heap w k), msg_PhotoURL = ws_PhotoURL (ws_heap w k),
                          msg_Message = text', msg_CreatedAt = now\<rparr>],
                      chatws_message_seq := chatws_message_seq w + 1,
                      ws_broadcast := enqueue (MessageEvent
                         \<lparr>msg_ID = chatws_message_seq w + 1, msg_UserID = ws_UserID (ws_heap w k),
                          msg_Username = ws_Username (ws_heap w k), msg_PhotoURL = ws_PhotoURL (ws_heap w k),
                          msg_Message = text', msg_CreatedAt = now\<rparr>) (ws_broadcast w)\<rparr>)"
    using assms(4-7) by (simp add: handleChatMessage_def Let_def send_def has_room_def)
  from banned unknown known ws show ?thesis by blast
qed

theorem sendMessageHandler_cases_witness:
  "chat_inv (chat_init\<lparr>chat_users := [\<lparr>usr_ID = ''b'', usr_Email = ''b'', usr_Username = ''B'', usr_PhotoURL = [], usr_IsOnline = True\<rparr>, \<lparr>usr_ID = ''z'', usr_Email = ''z'', usr_Username = ''Z'', usr_PhotoURL = [], usr_IsOnline = True\<rparr>], chat_clients := [(''a'', \<lparr>sse_UserID = ''a'', sse_Username = ''A'', sse_PhotoURL = [], sse_Channel = make_chan 10\<rparr>), (''c'', \<lparr>sse_UserID = ''c'', sse_Username = ''C'', sse_PhotoURL = [], sse_Channel = make_chan 10\<rparr>)],
        chat_blocks := [(''a'', ''b'')], chat_banned_users := [''z'']\<rparr>) \<and> \<not> chatws_db_down chatws_init \<and> \<not> ch_closed (ws_broadcast chatws_init) \<and>
   has_room (ws_broadcast chatws_init) \<and>
   isUserBanned ''z'' (chat_init\<lparr>chat_users := [\<lparr>usr_ID = ''b'', usr_Email = ''b'', usr_Username = ''B'', usr_PhotoURL = [], usr_IsOnline = True\<rparr>, \<lparr>usr_ID = ''z'', usr_Email = ''z'', usr_Username = ''Z'', usr_PhotoURL = [], usr_IsOnline = True\<rparr>], chat_clients := [(''a'', \<lparr>sse_UserID = ''a'', sse_Username = ''A'', sse_PhotoURL = [], sse_Channel = make_chan 10\<rparr>), (''c'', \<lparr>sse_UserID = ''c'', sse_Username = ''C'', sse_PhotoURL = [], sse_Channel = make_chan 10\<rparr>)],
        chat_blocks := [(''a'', ''b'')], chat_banned_users := [''z'']\<rparr>) \<and> sendMessageHandler ''z'' ''hi'' 7 (chat_init\<lparr>chat_users := [\<lparr>usr_ID = ''b'', usr_Email = ''b'', usr_Username = ''B'', usr_PhotoURL = [], usr_IsOnline = True\<rparr>, \<lparr>usr_ID = ''z'', usr_Email = ''z'', usr_Username = ''Z'', usr_PhotoURL = [], usr_IsOnline = True\<rparr>], chat_clients := [(''a'', \<lparr>sse_UserID = ''a'', sse_Username = ''A'', sse_PhotoURL = [], sse_Channel = make_chan 10\<rparr>), (''c'', \<lparr>sse_UserID = ''c'', sse_Username = ''C'', sse_PhotoURL = [], sse_Channel = make_chan 10\<rparr>)],
        chat_blocks := [(''a'', ''b'')], chat_banned_users := [''z'']\<rparr>) = Inr (403, (chat_init\<lparr>chat_users := [\<lparr>usr_ID = ''b'', usr_Email = ''b'', usr_Username = ''B'', usr_PhotoURL = [], usr_IsOnline = True\<rparr>, \<lparr>usr_ID = ''z'', usr_Email = ''z'', usr_Username = ''Z'', usr_PhotoURL = [], usr_IsOnline = True\<rparr>], chat_clients := [(''a'', \<lparr>sse_UserID = ''a'', sse_Username = ''A'', sse_PhotoURL = [], sse_Channel = make_chan 10\<rparr>), (''c'', \<lparr>sse_UserID = ''c'', sse_Username = ''C'', sse_PhotoURL = [], sse_Channel = make_chan 10\<rparr>)],
        chat_blocks := [(''a'', ''b'')], chat_banned_users := [''z'']\<rparr>)) \<and>
   \<not> isUserBanned ''q'' (chat_init\<lparr>chat_users := [\<lparr>usr_ID = ''b'', usr_Email = ''b'', usr_Username = ''B'', usr_PhotoURL = [], usr_IsOnline = True\<rparr>, \<lparr>usr_ID = ''z'', usr_Email = ''z'', usr_Username = ''Z'', usr_PhotoURL = [], usr_IsOnline = True\<rparr>], chat_clients := [(''a'', \<lparr>sse_UserID = ''a'', sse_Username = ''A'', sse_PhotoURL = [], sse_Channel = make_chan 10\<rparr>), (''c'', \<lparr>sse_UserID = ''c'', sse_Username = ''C'', sse_PhotoURL = [], sse_Channel = make_chan 10\<rparr>)],
        chat_blocks := [(''a'', ''b'')], chat_banned_users := [''z'']\<rparr>) \<and> find_user ''q'' (chat_init\<lparr>chat_users := [\<lparr>usr_ID = ''b'', usr_Email = ''b'', usr_Username = ''B'', usr_PhotoURL = [], usr_IsOnline = True\<rparr>, \<lparr>usr_ID = ''z'', usr_Email = ''z'', usr_Username = ''Z'', usr_PhotoURL = [], usr_IsOnline = True\<rparr>], chat_clients := [(''a'', \<lparr>sse_UserID = ''a'', sse_Username = ''A'', sse_PhotoURL = [], sse_Channel = make_chan 10\<rparr>), (''c'', \<lparr>sse_UserID = ''c'', sse_Username = ''C'', sse_PhotoURL = [], sse_Channel = make_chan 10\<rparr>)],
        chat_blocks := [(''a'', ''b'')], chat_banned_users := [''z'']\<rparr>) = None \<and>
   sendMessageHandler ''q'' ''hi'' 7 (chat_init\<lparr>chat_users := [\<lparr>usr_ID = ''b'', usr_Email = ''b'', usr_Username = ''B'', usr_PhotoURL = [], usr_IsOnline = True\<rparr>, \<lparr>usr_ID = ''z'', usr_Email = ''z'', usr_Username = ''Z'', usr_PhotoURL = [], usr_IsOnline = True\<rparr>], chat_clients := [(''a'', \<lparr>sse_UserID = ''a'', sse_Username = ''A'', sse_PhotoURL = [], sse_Channel = make_chan 10\<rparr>), (''c'', \<lparr>sse_UserID = ''c'', sse_Username = ''C'', sse_PhotoURL = [], sse_Channel = make_chan 10\<rparr>)],
        chat_blocks := [(''a'', ''b'')], chat_banned_users := [''z'']\<rparr>) = Inr (401, (chat_init\<lparr>chat_users := [\<lparr>usr_ID = ''b'', usr_Email = ''b'', usr_Username = ''B'', usr_PhotoURL = [], usr_IsOnline = True\<rparr>, \<lparr>usr_ID = ''z'', usr_Email = ''z'', usr_Username = ''Z'', usr_PhotoURL = [], usr_IsOnline = True\<rparr>], chat_clients := [(''a'', \<lparr>sse_UserID = ''a'', sse_Username = ''A'', sse_PhotoURL = [], sse_Channel = make_chan 10\<rparr>), (''c'', \<lparr>sse_UserID = ''c'', sse_Username = ''C'', sse_PhotoURL = [], sse_Channel = make_chan 10\<rparr>)],
        chat_blocks := [(''a'', ''b'')], chat_banned_users := [''z'']\<rparr>)) \<and>
   \<not> isUserBanned ''b'' (chat_init\<lparr>chat_users := [\<lparr>usr_ID = ''b'', usr_Email = ''b'', usr_Username = ''B'', usr_PhotoURL = [], usr_IsOnline = True\<rparr>, \<lparr>usr_ID = ''z'', usr_Email = ''z'', usr_Username = ''Z'', usr_PhotoURL = [], usr_IsOnline = True\<rparr>], chat_clients := [(''a'', \<lparr>sse_UserID = ''a'', sse_Username = ''A'', sse_PhotoURL = [], sse_Channel = make_chan 10\<rparr>), (''c'', \<lparr>sse_UserID = ''c'', sse_Username = ''C'', sse_PhotoURL = [], sse_Channel = make_chan 10\<rparr>)],
        chat_blocks := [(''a'', ''b'')], chat_banned_users := [''z'']\<rparr>) \<and>
   (\<exists>s'. sendMessageHandler ''b'' ''hi'' 7 (chat_init\<lparr>chat_users := [\<lparr>usr_ID = ''b'', usr_Email = ''b'', usr_Username = ''B'', usr_PhotoURL = [], usr_IsOnline = True\<rparr>, \<lparr>usr_ID = ''z'', usr_Email = ''z'', usr_Username = ''Z'', usr_PhotoURL = [], usr_IsOnline = True\<rparr>], chat_clients := [(''a'', \<lparr>sse_UserID = ''a'', sse_Username = ''A'', sse_PhotoURL = [], sse_Channel = make_chan 10\<rparr>), (''c'', \<lparr>sse_UserID = ''c'', sse_Username = ''C'', sse_PhotoURL = [], sse_Channel = make_chan 10\<rparr>)],
        chat_blocks := [(''a'', ''b'')], chat_banned_users := [''z'']\<rparr>) = Inr (200, s') \<and>
      chat_messages s' = [\<lparr>msg_ID = 1, msg_UserID = ''b'', msg_Username = ''B'', msg_PhotoURL = [], msg_Message = ''hi'', msg_CreatedAt = 7\<rparr>] \<and>
      chat_clients s' = [(''a'', \<lparr>sse_UserID = ''a'', sse_Username = ''A'', sse_PhotoURL = [], sse_Channel = make_chan 10\<rparr>), (''c'', \<lparr>sse_UserID = ''c'', sse_Username = ''C'', sse_PhotoURL = [], sse_Channel = make_chan 10\<rparr>\<lparr>sse_Channel := enqueue (MessageEvent \<lparr>msg_ID = 1, msg_UserID = ''b'', msg_Username = ''B'', msg_PhotoURL = [], msg_Message = ''hi'', msg_CreatedAt = 7\<rparr>) (make_chan 10)\<rparr>)]) \<and>
   (\<exists>w'. handleChatMessage 0 (Some ''hi'') 7 chatws_init = Returns w' \<and>
      ch_buf (ws_broadcast w') =
        [MessageEvent \<lparr>msg_ID = 1, msg_UserID = [], msg_Username = [], msg_PhotoURL = [],
                       msg_Message = ''hi'', msg_CreatedAt = 7\<rparr>])"
proof -
  have h1: "chat_inv (chat_init\<lparr>chat_users := [\<lparr>usr_ID = ''b'', usr_Email = ''b'', usr_Username = ''B'', usr_PhotoURL = [], usr_IsOnline = True\<rparr>, \<lparr>usr_ID = ''z'', usr_Email = ''z'', usr_Username = ''Z'', usr_PhotoURL = [], usr_IsOnline = True\<rparr>], chat_clients := [(''a'', \<lparr>sse_UserID = ''a'', sse_Username = ''A'', sse_PhotoURL = [], sse_Channel = make_chan 10\<rparr>), (''c'', \<lparr>sse_UserID = ''c'', sse_Username = ''C'', sse_PhotoURL = [], sse_Channel = make_chan 10\<rparr>)],
        chat_blocks := [(''a'', ''b'')], chat_banned_users := [''z'']\<rparr>)" by (simp add: chat_inv_def chat_init_def make_chan_def)
  have n: "''hi'' \<noteq> []" "''z'' \<noteq> []" "''q'' \<noteq> []" "''b'' \<noteq> []" by simp_all
  have h5: "\<not> chatws_db_down chatws_init" by (simp add: chatws_init_def)
  have h6: "\<not> ch_closed (ws_broadcast chatws_init)" by (simp add: chatws_init_def make_chan_def)
  have h7: "has_room (ws_broadcast chatws_init)" by (simp add: chatws_init_def make_chan_def has_room_def)
  have bz: "isUserBanned ''z'' (chat_init\<lparr>chat_users := [\<lparr>usr_ID = ''b'', usr_Email = ''b'', usr_Username = ''B'', usr_PhotoURL = [], usr_IsOnline = True\<rparr>, \<lparr>usr_ID = ''z'', usr_Email = ''z'', usr_Username = ''Z'', usr_PhotoURL = [], usr_IsOnline = True\<rparr>], chat_clients := [(''a'', \<lparr>sse_UserID = ''a'', sse_Username = ''A'', sse_PhotoURL = [], sse_Channel = make_chan 10\<rparr>), (''c'', \<lparr>sse_UserID = ''c'', sse_Username = ''C'', sse_PhotoURL = [], sse_Channel = make_chan 10\<rparr>)],
        chat_blocks := [(''a'', ''b'')], chat_banned_users := [''z'']\<rparr>)" by (simp add: isUserBanned_def chat_init_def)
  have bq: "\<not> isUserBanned ''q'' (chat_init\<lparr>chat_users := [\<lparr>usr_ID = ''b'', usr_Email = ''b'', usr_Username = ''B'', usr_PhotoURL = [], usr_IsOnline = True\<rparr>, \<lparr>usr_ID = ''z'', usr_Email = ''z'', usr_Username = ''Z'', usr_PhotoURL = [], usr_IsOnline = True\<rparr>], chat_clients := [(''a'', \<lparr>sse_UserID = ''a'', sse_Username = ''A'', sse_PhotoURL = [], sse_Channel = make_chan 10\<rparr>), (''c'', \<lparr>sse_UserID = ''c'', sse_Username = ''C'', sse_PhotoURL = [], sse_Channel = make_chan 10\<rparr>)],
        chat_blocks := [(''a'', ''b'')], chat_banned_users := [''z'']\<rparr>)" "find_user ''q'' (chat_init\<lparr>chat_users := [\<lparr>usr_ID = ''b'', usr_Email = ''b'', usr_Username = ''B'', usr_PhotoURL = [], usr_IsOnline = True\<rparr>, \<lparr>usr_ID = ''z'', usr_Email = ''z'', usr_Username = ''Z'', usr_PhotoURL = [], usr_IsOnline = True\<rparr>], chat_clients := [(''a'', \<lparr>sse_UserID = ''a'', sse_Username = ''A'', sse_PhotoURL = [], sse_Channel = make_chan 10\<rparr>), (''c'', \<lparr>sse_UserID = ''c'', sse_Username = ''C'', sse_PhotoURL = [], sse_Channel = make_chan 10\<rparr>)],
        chat_blocks := [(''a'', ''b'')], chat_banned_users := [''z'']\<rparr>) = None"
    by (simp_all add: isUserBanned_def find_user_def chat_init_def)
  have bb: "\<not> isUserBanned ''b'' (chat_init\<lparr>chat_users := [\<lparr>usr_ID = ''b'', usr_Email = ''b'', usr_Username = ''B'', usr_PhotoURL = [], usr_IsOnline = True\<rparr>, \<lparr>usr_ID = ''z'', usr_Email = ''z'', usr_Username = ''Z'', usr_PhotoURL = [], usr_IsOnline = True\<rparr>], chat_clients := [(''a'', \<lparr>sse_UserID = ''a'', sse_Username = ''A'', sse_PhotoURL = [], sse_Channel = make_chan 10\<rparr>), (''c'', \<lparr>sse_UserID = ''c'', sse_Username = ''C'', sse_PhotoURL = [], sse_Channel = make_chan 10\<rparr>)],
        chat_blocks := [(''a'', ''b'')], chat_banned_users := [''z'']\<rparr>)"
    "find_user ''b'' (chat_init\<lparr>chat_users := [\<lparr>usr_ID = ''b'', usr_Email = ''b'', usr_Username = ''B'', usr_PhotoURL = [], usr_IsOnline = True\<rparr>, \<lparr>usr_ID = ''z'', usr_Email = ''z'', usr_Username = ''Z'', usr_PhotoURL = [], usr_IsOnline = True\<rparr>], chat_clients := [(''a'', \<lparr>sse_UserID = ''a'', sse_Username = ''A'', sse_PhotoURL = [], sse_Channel = make_chan 10\<rparr>), (''c'', \<lparr>sse_UserID = ''c'', sse_Username = ''C'', sse_PhotoURL = [], sse_Channel = make_chan 10\<rparr>)],
        chat_blocks := [(''a'', ''b'')], chat_banned_users := [''z'']\<rparr>) = Some \<lparr>usr_ID = ''b'', usr_Email = ''b'', usr_Username = ''B'', usr_PhotoURL = [], usr_IsOnline = True\<rparr>"
    by (simp_all add: isUserBanned_def find_user_def chat_init_def)
  note tz = sendMessageHandler_cases [OF h1 n(2) n(1) n(1) h5 h6 h7, of 7 0]
  note tq = sendMessageHandler_cases [OF h1 n(3) n(1) n(1) h5 h6 h7, of 7 0]
  note tb = sendMessageHandler_cases [OF h1 n(4) n(1) n(1) h5 h6 h7, of 7 0]
  have z: "sendMessageHandler ''z'' ''hi'' 7 (chat_init\<lparr>chat_users := [\<lparr>usr_ID = ''b'', usr_Email = ''b'', usr_Username = ''B'', usr_PhotoURL = [], usr_IsOnline = True\<rparr>, \<lparr>usr_ID = ''z'', usr_Email = ''z'', usr_Username = ''Z'', usr_PhotoURL = [], usr_IsOnline = True\<rparr>], chat_clients := [(''a'', \<lparr>sse_UserID = ''a'', sse_Username = ''A'', sse_PhotoURL = [], sse_Channel = make_chan 10\<rparr>), (''c'', \<lparr>sse_UserID = ''c'', sse_Username = ''C'', sse_PhotoURL = [], sse_Channel = make_chan 10\<rparr>)],
        chat_blocks := [(''a'', ''b'')], chat_banned_users := [''z'']\<rparr>) = Inr (403, (chat_init\<lparr>chat_users := [\<lparr>usr_ID = ''b'', usr_Email = ''b'', usr_Username = ''B'', usr_PhotoURL = [], usr_IsOnline = True\<rparr>, \<lparr>usr_ID = ''z'', usr_Email = ''z'', usr_Username = ''Z'', usr_PhotoURL = [], usr_IsOnline = True\<rparr>], chat_clients := [(''a'', \<lparr>sse_UserID = ''a'', sse_Username = ''A'', sse_PhotoURL = [], sse_Channel = make_chan 10\<rparr>), (''c'', \<lparr>sse_UserID = ''c'', sse_Username = ''C'', sse_PhotoURL = [], sse_Channel = make_chan 10\<rparr>)],
        chat_blocks := [(''a'', ''b'')], chat_banned_users := [''z'']\<rparr>))" using tz bz by blast
  have q: "sendMessageHandler ''q'' ''hi'' 7 (chat_init\<lparr>chat_users := [\<lparr>usr_ID = ''b'', usr_Email = ''b'', usr_Username = ''B'', usr_PhotoURL = [], usr_IsOnline = True\<rparr>, \<lparr>usr_ID = ''z'', usr_Email = ''z'', usr_Username = ''Z'', usr_PhotoURL = [], usr_IsOnline = True\<rparr>], chat_clients := [(''a'', \<lparr>sse_UserID = ''a'', sse_Username = ''A'', sse_PhotoURL = [], sse_Channel = make_chan 10\<rparr>), (''c'', \<lparr>sse_UserID = ''c'', sse_Username = ''C'', sse_PhotoURL = [], sse_Channel = make_chan 10\<rparr>)],
        chat_blocks := [(''a'', ''b'')], chat_banned_users := [''z'']\<rparr>) = Inr (401, (chat_init\<lparr>chat_users := [\<lparr>usr_ID = ''b'', usr_Email = ''b'', usr_Username = ''B'', usr_PhotoURL = [], usr_IsOnline = True\<rparr>, \<lparr>usr_ID = ''z'', usr_Email = ''z'', usr_Username = ''Z'', usr_PhotoURL = [], usr_IsOnline = True\<rparr>], chat_clients := [(''a'', \<lparr>sse_UserID = ''a'', sse_Username = ''A'', sse_PhotoURL = [], sse_Channel = make_chan 10\<rparr>), (''c'', \<lparr>sse_UserID = ''c'', sse_Username = ''C'', sse_PhotoURL = [], sse_Channel = make_chan 10\<rparr>)],
        chat_blocks := [(''a'', ''b'')], chat_banned_users := [''z'']\<rparr>))" using tq bq by blast
  have r: "has_room (make_chan 10 :: event chan)" by (simp add: has_room_def make_chan_def)
  have b: "\<exists>s'. sendMessageHandler ''b'' ''hi'' 7 (chat_init\<lparr>chat_users := [\<lparr>usr_ID = ''b'', usr_Email = ''b'', usr_Username = ''B'', usr_PhotoURL = [], usr_IsOnline = True\<rparr>, \<lparr>usr_ID = ''z'', usr_Email = ''z'', usr_Username = ''Z'', usr_PhotoURL = [], usr_IsOnline = True\<rparr>], chat_clients := [(''a'', \<lparr>sse_UserID = ''a'', sse_Username = ''A'', sse_PhotoURL = [], sse_Channel = make_chan 10\<rparr>), (''c'', \<lparr>sse_UserID = ''c'', sse_Username = ''C'', sse_PhotoURL = [], sse_Channel = make_chan 10\<rparr>)],
        chat_blocks := [(''a'', ''b'')], chat_banned_users := [''z'']\<rparr>) = Inr (200, s') \<and>
      chat_messages s' = [\<lparr>msg_ID = 1, msg_UserID = ''b'', msg_Username = ''B'', msg_PhotoURL = [], msg_Message = ''hi'', msg_CreatedAt = 7\<rparr>] \<and>
      chat_clients s' = [(''a'', \<lparr>sse_UserID = ''a'', sse_Username = ''A'', sse_PhotoURL = [], sse_Channel = make_chan 10\<rparr>), (''c'', \<lparr>sse_UserID = ''c'', sse_Username = ''C'', sse_PhotoURL = [], sse_Channel = make_chan 10\<rparr>\<lparr>sse_Channel := enqueue (MessageEvent \<lparr>msg_ID = 1, msg_UserID = ''b'', msg_Username = ''B'', msg_PhotoURL = [], msg_Message = ''hi'', msg_CreatedAt = 7\<rparr>) (make_chan 10)\<rparr>)]"
    using tb bb r by (auto simp: chat_init_def block_count_def)
  have w: "\<exists>w'. handleChatMessage 0 (Some ''hi'') 7 chatws_init = Returns w' \<and>
      ch_buf (ws_broadcast w') =
        [MessageEvent \<lparr>msg_ID = 1, msg_UserID = [], msg_Username = [], msg_PhotoURL = [],
                       msg_Message = ''hi'', msg_CreatedAt = 7\<rparr>]"
    using tb by (simp add: chatws_init_def make_chan_def)
  show ?thesis using h1 h5 h6 h7 bz z bq q bb(1) b w by blast
qed

text \<open>
  Claim C6 as stated fails. A sender who is not banned and has no row in the table of users
  is answered with status 401 and nothing is put on the channel of the one subscriber, who
  has blocked nobody. A known sender who is not banned is answered with status 200 while
  the one subscriber, whose channel is full, gets nothing.
\<close>

theorem sendMessageHandler_not_banned_counterexample:
  "\<not> isUserBanned ''q'' (chat_init\<lparr>chat_clients := [(''c'', \<lparr>sse_UserID = ''c'', sse_Username = ''C'', sse_PhotoURL = [], sse_Channel = make_chan 10\<rparr>)]\<rparr>) \<and>
   sendMessageHandler ''q'' ''hi'' 7 (chat_init\<lparr>chat_clients := [(''c'', \<lparr>sse_UserID = ''c'', sse_Username = ''C'', sse_PhotoURL = [], sse_Channel = make_chan 10\<rparr>)]\<rparr>) = Inr (401, (chat_init\<lparr>chat_clients := [(''c'', \<lparr>sse_UserID = ''c'', sse_Username = ''C'', sse_PhotoURL = [], sse_Channel = make_chan 10\<rparr>)]\<rparr>)) \<and>
   \<not> isUserBanned ''b'' (chat_init\<lparr>chat_users := [\<lparr>usr_ID = ''b'', usr_Email = ''b'', usr_Username = ''B'', usr_PhotoURL = [], usr_IsOnline = True\<rparr>], chat_clients := [(''c'', \<lparr>sse_UserID = ''c'', sse_Username = ''C'', sse_PhotoURL = [], sse_Channel = \<lparr>ch_buf = replicate 10 PongEvent, ch_cap = 10, ch_closed = False\<rparr>\<rparr>)]\<rparr>) \<and>
   (case sendMessageHandler ''b'' ''hi'' 7 (chat_init\<lparr>chat_users := [\<lparr>usr_ID = ''b'', usr_Email = ''b'', usr_Username = ''B'', usr_PhotoURL = [], usr_IsOnline = True\<rparr>], chat_clients := [(''c'', \<lparr>sse_UserID = ''c'', sse_Username = ''C'', sse_PhotoURL = [], sse_Channel = \<lparr>ch_buf = replicate 10 PongEvent, ch_cap = 10, ch_closed = False\<rparr>\<rparr>)]\<rparr>) of
      Inl e \<Rightarrow> False
    | Inr (code, s') \<Rightarrow> code = 200 \<and> chat_clients s' = chat_clients (chat_init\<lparr>chat_users := [\<lparr>usr_ID = ''b'', usr_Email = ''b'', usr_Username = ''B'', usr_PhotoURL = [], usr_IsOnline = True\<rparr>], chat_clients := [(''c'', \<lparr>sse_UserID = ''c'', sse_Username = ''C'', sse_PhotoURL = [], sse_Channel = \<lparr>ch_buf = replicate 10 PongEvent, ch_cap = 10, ch_closed = False\<rparr>\<rparr>)]\<rparr>))"
  by (simp add: sendMessageHandler_def isUserBanned_def find_user_def chat_init_def Let_def
      broadcastMessage_def block_count_def try_send_def has_room_def make_chan_def)

subsection \<open>Connecting and presence\<close>

lemma make_chan_simps [simp]:
  "ch_buf (make_chan n) = []" "ch_cap (make_chan n) = n" "\<not> ch_closed (make_chan n)"
  by (simp_all add: make_chan_def)




lemma set_is_online_idem [simp]:
  "set_is_online u b (set_is_online u b us) = set_is_online u b us"
  by (induction us) (auto simp: set_is_online_def)


lemma set_update_subset: "set (AList.update k v al) \<subseteq> insert (k, v) (set al)"
  by (induction al) auto















subsection \<open>Package chat: the history of messages\<close>





lemma sql_limit_split:
  "\<exists>older. xs = sql_limit n xs @ older \<and> set (sql_limit n xs) \<subseteq> set xs"
  by (cases "n < 0") (auto simp: sql_limit_def intro: exI [of _ "drop (nat n) xs"] dest: in_set_takeD)




subsection \<open>Package chatws: a send after the close\<close>

text \<open>
  Every action keeps the invariant of the registry, and the dispatcher, the connection
  handler, the disconnect and the write pump never panic in a state that has it: a panic
  can only be the send of \<^verbatim>\<open>readPump\<close> that answers a \<^verbatim>\<open>ping\<close>, on a client that
  is no longer registered and whose channel is closed.
\<close>

lemma HandleWebSocket_keeps_inv:
  assumes "ws_inv s" and "\<not> ch_closed (ws_broadcast s)"
  shows "case HandleWebSocket decode tok up s of
           Returns (r, s') \<Rightarrow> ws_inv s' \<and> \<not> ch_closed (ws_broadcast s')
         | Waits \<Rightarrow> True
         | Panics e \<Rightarrow> False"
  using assms
  by (auto simp: HandleWebSocket_def authenticateClientWithToken_def Let_def map_put_def
      updateUserOnlineStatus_def sendOnlineUsersToClient_def try_send_def broadcastUserJoined_def
      send_def ws_inv_def less_Suc_eq
      split: option.splits)

lemma handleBroadcast_keeps_inv:
  assumes "ws_inv s" and "\<not> ch_closed (ws_broadcast s)"
  shows "case handleBroadcast s of
           Returns s' \<Rightarrow> ws_inv s' \<and> \<not> ch_closed (ws_broadcast s')
         | Waits \<Rightarrow> True
         | Panics e \<Rightarrow> False"
proof (cases "ch_buf (ws_broadcast s)")
  case Nil
  then show ?thesis by (simp add: handleBroadcast_def)
next
  case (Cons m rest)
  show ?thesis
    using assms by (auto simp: handleBroadcast_closed_form [OF assms(1) Cons] ws_inv_def)
qed

lemma readPump_keeps_inv:
  assumes "ws_inv s" and "\<not> ch_closed (ws_broadcast s)"
  shows "case readPump client fr now s of
           Returns s' \<Rightarrow> ws_inv s' \<and> \<not> ch_closed (ws_broadcast s')
         | Waits \<Rightarrow> True
         | Panics e \<Rightarrow> e = SendOnClosedChannel \<and> (\<exists>field. fr = Typed ''ping'' field) \<and>
             client \<notin> set (ws_clients s) \<and> ch_closed (ws_Send (ws_heap s client))"
  using assms
  by (cases fr)
     (auto simp: readPump_def disconnect_def close_chan_def updateUserOnlineStatus_def
        broadcastUserLeft_def handleChatMessage_def Let_def send_def ws_inv_def ws_getOnlineCount_def
        distinct_removeAll
        split: option.splits)

lemma writePump_keeps_inv:
  assumes "ws_inv s" and "\<not> ch_closed (ws_broadcast s)"
  shows "case writePump client s of
           Returns s' \<Rightarrow> ws_inv s' \<and> \<not> ch_closed (ws_broadcast s')
         | Waits \<Rightarrow> True
         | Panics e \<Rightarrow> False"
  using assms
  by (auto simp: writePump_def ws_inv_def split: list.splits)

lemma only_the_pong_can_panic:
  assumes "ws_inv s" and "\<not> ch_closed (ws_broadcast s)"
  shows "case ws_step decode a s of
           Returns s' \<Rightarrow> ws_inv s' \<and> \<not> ch_closed (ws_broadcast s')
         | Waits \<Rightarrow> True
         | Panics e \<Rightarrow> e = SendOnClosedChannel \<and>
             (\<exists>client field now. a = Receive client (Typed ''ping'' field) now \<and>
                client \<notin> set (ws_clients s) \<and> ch_closed (ws_Send (ws_heap s client)))"
proof (cases a)
  case (Connect tok up)
  show ?thesis
    using HandleWebSocket_keeps_inv [OF assms, of decode tok up] Connect
    by (auto split: outcome.splits)
next
  case Dispatch
  show ?thesis using handleBroadcast_keeps_inv [OF assms] Dispatch by (auto split: outcome.splits)
next
  case (Receive client fr now)
  show ?thesis using readPump_keeps_inv [OF assms, where client = client and fr = fr and now = now] Receive
    by (auto split: outcome.splits)
next
  case (Transmit client)
  show ?thesis using writePump_keeps_inv [OF assms, of client] Transmit by (auto split: outcome.splits)
qed

lemma ws_run_append:
  "ws_run d (xs @ ys) s =
     (case ws_run d xs s of Returns s' \<Rightarrow> ws_run d ys s' | Waits \<Rightarrow> Waits | Panics e \<Rightarrow> Panics e)"
  by (induction xs arbitrary: s) (auto split: outcome.splits)

text \<open>
  A client that reads nothing from its channel while one chat message of its own is stored
  and dispatched: the channel grows by one.
\<close>

lemma relay_one:
  assumes "ws_clients s = [0] \<and> 0 \<in> set (ws_readers s) \<and> \<not> ch_closed (ws_Send (ws_heap s 0)) \<and>
     ch_cap (ws_Send (ws_heap s 0)) = 256 \<and> length (ch_buf (ws_Send (ws_heap s 0))) = n \<and>
     ws_broadcast s = make_chan 256 \<and> \<not> chatws_db_down s" and "n < 256" and "text \<noteq> []"
  shows "\<exists>s'. ws_run d [Receive 0 (Typed ''message'' (Some text)) now, Dispatch] s = Returns s' \<and>
           ws_clients s' = [0] \<and> 0 \<in> set (ws_readers s') \<and> \<not> ch_closed (ws_Send (ws_heap s' 0)) \<and>
     ch_cap (ws_Send (ws_heap s' 0)) = 256 \<and> length (ch_buf (ws_Send (ws_heap s' 0))) = Suc n \<and>
     ws_broadcast s' = make_chan 256 \<and> \<not> chatws_db_down s'"
  using assms
  by (simp add: readPump_def handleChatMessage_def Let_def send_def has_room_def make_chan_def
      enqueue_def handleBroadcast_def try_send_def)

lemma relay_many:
  assumes "ws_clients s = [0] \<and> 0 \<in> set (ws_readers s) \<and> \<not> ch_closed (ws_Send (ws_heap s 0)) \<and>
     ch_cap (ws_Send (ws_heap s 0)) = 256 \<and> length (ch_buf (ws_Send (ws_heap s 0))) = n \<and>
     ws_broadcast s = make_chan 256 \<and> \<not> chatws_db_down s" and "n + j \<le> 256" and "text \<noteq> []"
  shows "\<exists>s'. ws_run d (concat (replicate j [Receive 0 (Typed ''message'' (Some text)) now, Dispatch])) s =
             Returns s' \<and>
           ws_clients s' = [0] \<and> 0 \<in> set (ws_readers s') \<and> \<not> ch_closed (ws_Send (ws_heap s' 0)) \<and>
     ch_cap (ws_Send (ws_heap s' 0)) = 256 \<and> length (ch_buf (ws_Send (ws_heap s' 0))) = n + j \<and>
     ws_broadcast s' = make_chan 256 \<and> \<not> chatws_db_down s'"
  using assms
proof (induction j arbitrary: n s)
  case 0
  then show ?case by simp
next
  case (Suc j)
  have lt: "n < 256" using Suc.prems(2) by simp
  from relay_one [OF Suc.prems(1) lt Suc.prems(3), of d now] obtain s1 where
    r1: "ws_run d [Receive 0 (Typed ''message'' (Some text)) now, Dispatch] s = Returns s1"
    and p1: "ws_clients s1 = [0] \<and> 0 \<in> set (ws_readers s1) \<and> \<not> ch_closed (ws_Send (ws_heap s1 0)) \<and>
     ch_cap (ws_Send (ws_heap s1 0)) = 256 \<and> length (ch_buf (ws_Send (ws_heap s1 0))) = Suc n \<and>
     ws_broadcast s1 = make_chan 256 \<and> \<not> chatws_db_down s1"
    by blast
  have le: "Suc n + j \<le> 256" using Suc.prems(2) by simp
  from Suc.IH [OF p1 le Suc.prems(3)] obtain s2 where
    r2: "ws_run d (concat (replicate j [Receive 0 (Typed ''message'' (Some text)) now, Dispatch])) s1 =
             Returns s2"
    and p2: "ws_clients s2 = [0] \<and> 0 \<in> set (ws_readers s2) \<and> \<not> ch_closed (ws_Send (ws_heap s2 0)) \<and>
     ch_cap (ws_Send (ws_heap s2 0)) = 256 \<and> length (ch_buf (ws_Send (ws_heap s2 0))) = Suc n + j \<and>
     ws_broadcast s2 = make_chan 256 \<and> \<not> chatws_db_down s2"
    by blast
  have "ws_run d (concat (replicate (Suc j) [Receive 0 (Typed ''message'' (Some text)) now, Dispatch])) s =
        Returns s2"
    using r1 r2 ws_run_append [of d "[Receive 0 (Typed ''message'' (Some text)) now, Dispatch]"
        "concat (replicate j [Receive 0 (Typed ''message'' (Some text)) now, Dispatch])" s]
    by simp
  then show ?case using p2 by auto
qed

text \<open>
  With the channel full, the next message makes the dispatcher close the channel and delete
  the client; the pump that reads the client's frames is still running, and its answer to
  the next \<^verbatim>\<open>ping\<close> is a send on the closed channel.
\<close>

lemma relay_full:
  assumes "ws_clients s = [0] \<and> 0 \<in> set (ws_readers s) \<and> \<not> ch_closed (ws_Send (ws_heap s 0)) \<and>
     ch_cap (ws_Send (ws_heap s 0)) = 256 \<and> length (ch_buf (ws_Send (ws_heap s 0))) = 256 \<and>
     ws_broadcast s = make_chan 256 \<and> \<not> chatws_db_down s" and "text \<noteq> []"
  shows "ws_run d [Receive 0 (Typed ''message'' (Some text)) now, Dispatch,
                   Receive 0 (Typed ''ping'' field) now'] s = Panics SendOnClosedChannel"
  using assms
  by (simp add: readPump_def handleChatMessage_def Let_def send_def has_room_def make_chan_def
      enqueue_def handleBroadcast_def try_send_def close_chan_def)

text \<open>
  Claim C2 fails on the code of package chatws. One client connects and sends 255 chat
  messages while its write pump takes nothing from its channel; the dispatcher relays each
  of them to the client. The channel has room for 256 messages and holds two after the
  connection, so the dispatcher finds it full at the last message, closes it and deletes the
  client. The client's next frame is a \<^verbatim>\<open>ping\<close>: \<^verbatim>\<open>readPump\<close> sends the answer on the
  closed channel, which is a panic.
\<close>

theorem pong_after_drop_panics:
  "ws_run (\<lambda>p. if p = ''eyJzdWIiOiJ1MSJ9'' then Some (\<lambda>k. if k = ''sub'' then Some ''u1'' else None) else None)
     ([Connect ''h.eyJzdWIiOiJ1MSJ9.s'' True, Dispatch] @
      concat (replicate 254 [Receive 0 (Typed ''message'' (Some ''hi'')) 0, Dispatch]) @
      [Receive 0 (Typed ''message'' (Some ''hi'')) 0, Dispatch, Receive 0 (Typed ''ping'' None) 0])
     chatws_init = Panics SendOnClosedChannel"
proof -
  have "\<exists>s. ws_run (\<lambda>p. if p = ''eyJzdWIiOiJ1MSJ9'' then Some (\<lambda>k. if k = ''sub'' then Some ''u1'' else None) else None) [Connect ''h.eyJzdWIiOiJ1MSJ9.s'' True, Dispatch] chatws_init = Returns s \<and> (ws_clients s = [0] \<and> 0 \<in> set (ws_readers s) \<and> \<not> ch_closed (ws_Send (ws_heap s 0)) \<and>
     ch_cap (ws_Send (ws_heap s 0)) = 256 \<and> length (ch_buf (ws_Send (ws_heap s 0))) = 2 \<and>
     ws_broadcast s = make_chan 256 \<and> \<not> chatws_db_down s)"
    by (simp add: HandleWebSocket_def authenticateClientWithToken_def claim_string_def Let_def
      upsert_user_def chatws_init_def map_put_def updateUserOnlineStatus_def set_is_online_def
      sendOnlineUsersToClient_def try_send_def broadcastUserJoined_def send_def has_room_def
      ws_getOnlineCount_def enqueue_def make_chan_def handleBroadcast_def)
  then obtain s2 where r2: "ws_run (\<lambda>p. if p = ''eyJzdWIiOiJ1MSJ9'' then Some (\<lambda>k. if k = ''sub'' then Some ''u1'' else None) else None) [Connect ''h.eyJzdWIiOiJ1MSJ9.s'' True, Dispatch] chatws_init = Returns s2"
    and p2: "ws_clients s2 = [0] \<and> 0 \<in> set (ws_readers s2) \<and> \<not> ch_closed (ws_Send (ws_heap s2 0)) \<and>
     ch_cap (ws_Send (ws_heap s2 0)) = 256 \<and> length (ch_buf (ws_Send (ws_heap s2 0))) = 2 \<and>
     ws_broadcast s2 = make_chan 256 \<and> \<not> chatws_db_down s2"
    by blast
  have n: "''hi'' \<noteq> []" by simp
  have le: "(2::nat) + 254 \<le> 256" by simp
  from relay_many [OF p2 le n, of "(\<lambda>p. if p = ''eyJzdWIiOiJ1MSJ9'' then Some (\<lambda>k. if k = ''sub'' then Some ''u1'' else None) else None)" 0] obtain s3 where
    r3: "ws_run (\<lambda>p. if p = ''eyJzdWIiOiJ1MSJ9'' then Some (\<lambda>k. if k = ''sub'' then Some ''u1'' else None) else None) (concat (replicate 254 [Receive 0 (Typed ''message'' (Some ''hi'')) 0, Dispatch])) s2 =
           Returns s3"
    and p3: "ws_clients s3 = [0] \<and> 0 \<in> set (ws_readers s3) \<and> \<not> ch_closed (ws_Send (ws_heap s3 0)) \<and>
     ch_cap (ws_Send (ws_heap s3 0)) = 256 \<and> length (ch_buf (ws_Send (ws_heap s3 0))) = 2 + 254 \<and>
     ws_broadcast s3 = make_chan 256 \<and> \<not> chatws_db_down s3"
    by blast
  have p3': "ws_clients s3 = [0] \<and> 0 \<in> set (ws_readers s3) \<and> \<not> ch_closed (ws_Send (ws_heap s3 0)) \<and>
     ch_cap (ws_Send (ws_heap s3 0)) = 256 \<and> length (ch_buf (ws_Send (ws_heap s3 0))) = 256 \<and>
     ws_broadcast s3 = make_chan 256 \<and> \<not> chatws_db_down s3" using p3 by simp
  have r4: "ws_run (\<lambda>p. if p = ''eyJzdWIiOiJ1MSJ9'' then Some (\<lambda>k. if k = ''sub'' then Some ''u1'' else None) else None) [Receive 0 (Typed ''message'' (Some ''hi'')) 0, Dispatch,
                        Receive 0 (Typed ''ping'' None) 0] s3 = Panics SendOnClosedChannel"
    by (rule relay_full [OF p3' n])
  show ?thesis
    unfolding ws_run_append r2 outcome.case r3 r4 ..
qed

subsection \<open>The invariants hold in every reachable state\<close>

text \<open>
  The three invariants hold in the initial states and every operation that returns keeps
  them (for package chatws this is \<open>only_the_pong_can_panic\<close>), so the theorems above that
  assume them speak about every state the server can reach.
\<close>

lemma live_inv_Init: "live_inv (Init now)"
  by (simp add: live_inv_def Init_def)

lemma live_inv_open:
  assumes "live_inv s"
  shows "live_inv (snd (snd (StreamLotteryData_open json s)))"
  using assms
  by (auto simp: live_inv_def StreamLotteryData_open_def Let_def map_put_def less_Suc_eq)

lemma live_inv_done:
  assumes "live_inv s" and "StreamLotteryData_done clientChan s = Inr s'"
  shows "live_inv s'"
  using assms
  by (auto simp: live_inv_def StreamLotteryData_done_def Let_def close_chan_def distinct_removeAll
      split: if_splits)

lemma live_inv_recv:
  assumes "live_inv s" and "StreamLotteryData_recv clientChan s = Some (fr, s')"
  shows "live_inv s'"
  using assms
  by (auto simp: live_inv_def StreamLotteryData_recv_def split: list.splits if_splits)

lemma live_inv_broadcastUpdate:
  assumes "live_inv s"
  shows "\<exists>s'. broadcastUpdate json s = Inr s' \<and> live_inv s'"
proof -
  have d: "distinct (live_clients s)" and o: "\<forall>c\<in>set (live_clients s). \<not> ch_closed (live_chans s c)"
    using assms by (auto simp: live_inv_def)
  show ?thesis
    using assms
    by (cases "json ((currentData s)\<lparr>ViewCount := int (length (live_clients s))\<rparr>)")
       (auto simp: broadcastUpdate_def Let_def send_clients_closed_form [OF d o] live_inv_def)
qed

lemma live_inv_UpdateLotteryData:
  assumes "live_inv s"
  shows "\<exists>code s'. UpdateLotteryData json body s = Inr (code, s') \<and> live_inv s'"
proof (cases body)
  case None
  then show ?thesis using assms by (simp add: UpdateLotteryData_def)
next
  case (Some i)
  have inv1: "live_inv (s\<lparr>currentData := ToLotteryData i\<rparr>)" using assms by (simp add: live_inv_def)
  from live_inv_broadcastUpdate [OF inv1, of json] obtain s' where
    "broadcastUpdate json (s\<lparr>currentData := ToLotteryData i\<rparr>) = Inr s'" and "live_inv s'"
    by blast
  then show ?thesis using Some by (auto simp: UpdateLotteryData_def Let_def)
qed

lemma ws_inv_init: "ws_inv chatws_init \<and> \<not> ch_closed (ws_broadcast chatws_init)"
  by (simp add: ws_inv_def chatws_init_def)

lemma chat_inv_init: "chat_inv chat_init"
  by (simp add: chat_inv_def chat_init_def)

lemma offered_inv:
  assumes "chat_inv s"
  shows "chat_inv (s\<lparr>chat_clients :=
           map (\<lambda>(u, c). (u, if p u c then c\<lparr>sse_Channel := enqueue ev (sse_Channel c)\<rparr> else c))
             (chat_clients s)\<rparr>)"
  using assms by (auto simp: chat_inv_def split_def comp_def)

lemma chat_inv_broadcastOnlineStatus:
  assumes "chat_inv s" and "broadcastOnlineStatus s = Inr s'"
  shows "chat_inv s'"
proof -
  have o: "\<forall>(u, c)\<in>set (chat_clients s). \<not> ch_closed (sse_Channel c)"
    using assms(1) by (simp add: chat_inv_def)
  show ?thesis
    using assms(2) offered_inv [OF assms(1), of "\<lambda>u c. has_room (sse_Channel c)"]
    by (auto simp: broadcastOnlineStatus_def Let_def offer_all_closed_form [OF o] split: if_splits)
qed

lemma chat_inv_broadcastMessage:
  assumes "chat_inv s"
  shows "\<exists>s'. broadcastMessage msg sender s = Inr s' \<and> chat_inv s'"
  using offered_inv [OF assms, of "\<lambda>u c. block_count u sender s = 0 \<and> has_room (sse_Channel c)"]
  by (simp add: broadcastMessage_closed_form [OF assms])

lemma chat_inv_sendMessageHandler:
  assumes "chat_inv s"
  shows "\<exists>code s'. sendMessageHandler userID text now s = Inr (code, s') \<and> chat_inv s'"
proof -
  have k: "\<And>m. chat_inv (s\<lparr>chat_messages := chat_messages s @ [m],
                              chat_message_seq := chat_message_seq s + 1\<rparr>)"
    using assms by (simp add: chat_inv_def)
  show ?thesis
  proof (cases "userID = [] \<or> text = [] \<or> isUserBanned userID s \<or> find_user userID s = None \<or>
      chat_db_down s")
    case True
    then show ?thesis using assms by (auto simp: sendMessageHandler_def split: option.splits)
  next
    case False
    then obtain u where u: "find_user userID s = Some u" by auto
    let ?m = "\<lparr>msg_ID = chat_message_seq s + 1, msg_UserID = userID, msg_Username = usr_Username u,
               msg_PhotoURL = usr_PhotoURL u, msg_Message = text, msg_CreatedAt = now\<rparr>"
    from chat_inv_broadcastMessage [OF k, of ?m userID ?m] obtain s' where
      "broadcastMessage ?m userID (s\<lparr>chat_messages := chat_messages s @ [?m],
                              chat_message_seq := chat_message_seq s + 1\<rparr>) = Inr s'"
      and "chat_inv s'"
      by blast
    then show ?thesis using False u by (simp add: sendMessageHandler_def Let_def)
  qed
qed

lemma chat_inv_sseStreamHandler_open:
  assumes "chat_inv s" and "sseStreamHandler_open userID un ph s = Inr (code, ev, s')"
  shows "chat_inv s'"
proof (cases "userID = []")
  case True
  then show ?thesis using assms by (simp add: sseStreamHandler_open_def)
next
  case False
  let ?cl = "\<lparr>sse_UserID = userID, sse_Username = un, sse_PhotoURL = ph, sse_Channel = make_chan 10\<rparr>"
  let ?s2 = "mark_online userID True (s\<lparr>chat_clients := AList.update userID ?cl (chat_clients s)\<rparr>)"
  have sub: "set (AList.update userID ?cl (chat_clients s)) \<subseteq> insert (userID, ?cl) (set (chat_clients s))"
    by (rule set_update_subset)
  have inv2: "chat_inv ?s2"
    using assms(1) sub by (auto simp: chat_inv_def mark_online_def distinct_update)
  from assms(2) False have "broadcastOnlineStatus ?s2 = Inr s'"
    by (auto simp: sseStreamHandler_open_def Let_def split: sum.splits)
  then show ?thesis by (rule chat_inv_broadcastOnlineStatus [OF inv2])
qed

lemma chat_inv_sseStreamHandler_done:
  assumes "chat_inv s" and "sseStreamHandler_done userID s = Inr s'"
  shows "chat_inv s'"
proof -
  let ?s2 = "mark_online userID False (s\<lparr>chat_clients := AList.delete userID (chat_clients s)\<rparr>)"
  have sub: "set (AList.delete userID (chat_clients s)) \<subseteq> set (chat_clients s)"
    by (auto simp: AList.delete_eq)
  have inv2: "chat_inv ?s2"
    using assms(1) sub by (auto simp: chat_inv_def mark_online_def distinct_delete)
  from assms(2) have "broadcastOnlineStatus ?s2 = Inr s'"
    by (simp add: sseStreamHandler_done_def Let_def)
  then show ?thesis by (rule chat_inv_broadcastOnlineStatus [OF inv2])
qed

lemma chat_inv_googleAuthHandler:
  assumes "chat_inv s" and "googleAuthHandler validate req s = Inr (code, s')"
  shows "chat_inv s'"
proof -
  have k: "\<And>us. chat_inv (s\<lparr>chat_users := us\<rparr>)" using assms(1) by (simp add: chat_inv_def)
  show ?thesis
    using assms chat_inv_broadcastOnlineStatus [OF k]
    by (auto simp: googleAuthHandler_def Let_def split: if_splits option.splits sum.splits)
qed

lemma chat_inv_blockUserHandler:
  assumes "chat_inv s"
  shows "chat_inv (snd (blockUserHandler blockerID blockedID s))"
  using assms by (simp add: chat_inv_def blockUserHandler_def)

end
